theory Spec2Isabelle
  imports Main "HOL-Library.Word" "HOL-Library.Log_Nat"
begin

section \<open>Strings\<close>

text \<open>
  Python strings are modelled as \<^typ>\<open>string\<close>, the list of the code points of the string
  (a \<^typ>\<open>char\<close> holds a code point below 256). The text of a database modelled here (names,
  tags, types, values) is ASCII text, and \<open>upper\<close> and \<open>casefold\<close> are \<^verbatim>\<open>str.upper\<close> and
  \<^verbatim>\<open>str.casefold\<close> on ASCII text: the letters a-z and A-Z are mapped, every other
  character is left alone. On other text \<^verbatim>\<open>str.upper\<close> and \<^verbatim>\<open>str.casefold\<close> map more
  characters, some of them to several characters or to code points above 255; the tag
  engine below therefore takes the upper-casing function as an argument, and its properties
  are proved for every such function, not for \<open>upper\<close> only.
\<close>

definition ascii_lowercase :: string where
  "ascii_lowercase = ''abcdefghijklmnopqrstuvwxyz''"

definition ascii_uppercase :: string where
  "ascii_uppercase = ''ABCDEFGHIJKLMNOPQRSTUVWXYZ''"

definition upper_char :: "char \<Rightarrow> char" where
  "upper_char c =
     (case map_of (zip ascii_lowercase ascii_uppercase) c of None \<Rightarrow> c | Some u \<Rightarrow> u)"

definition casefold_char :: "char \<Rightarrow> char" where
  "casefold_char c =
     (case map_of (zip ascii_uppercase ascii_lowercase) c of None \<Rightarrow> c | Some l \<Rightarrow> l)"

definition upper :: "string \<Rightarrow> string" where
  "upper s = map upper_char s"

definition casefold :: "string \<Rightarrow> string" where
  "casefold s = map casefold_char s"

text \<open>\<^verbatim>\<open>s.lstrip(chars)\<close> and \<^verbatim>\<open>s.rstrip(chars)\<close>.\<close>

definition lstrip :: "string \<Rightarrow> string \<Rightarrow> string" where
  "lstrip chars s = dropWhile (\<lambda>c. c \<in> set chars) s"

definition rstrip :: "string \<Rightarrow> string \<Rightarrow> string" where
  "rstrip chars s = rev (dropWhile (\<lambda>c. c \<in> set chars) (rev s))"

section \<open>Errors\<close>

text \<open>Every exception the modelled code can raise is a value of this type.\<close>

datatype error =
    DuplicateTags
  | AnyTag
  | TooManyItems
  | StructError
  | UnpackError
  | TypeError
  | MathDomainError
  | KeyError
  | UnknownBase
  | UnevaluatedBase
  | LoopInBases
  | SyntaxError
  | AttributeError
  | IndexError
  | UnicodeError
  | ValueError

section \<open>Tag engine\<close>

text \<open>
  A \<^verbatim>\<open>frozenset\<close> of tags is the list of its elements in its iteration order; two
  frozensets are equal, as dictionary keys too, when they have the same elements. The set
  comprehension of \<^verbatim>\<open>validate_tags\<close> is taken to yield its elements in the order of their
  last insertion; no property below depends on that order.
\<close>

type_synonym frozenset = "string list"

text \<open>
  \<^verbatim>\<open>validate_tags(tags, error)\<close>. The collection \<open>tags\<close> is the list of its elements;
  \<open>len(temp_set)\<close> is the number of distinct stripped, upper-cased tags. \<open>up\<close> is
  \<^verbatim>\<open>str.upper\<close>.
\<close>

definition validate_tags :: "(string \<Rightarrow> string) \<Rightarrow> string list \<Rightarrow> error + frozenset" where
  "validate_tags up tags =
     (let temp_set = set (map (\<lambda>t. up (lstrip ''!-+'' t)) tags) in
      if card temp_set \<noteq> length tags then Inl DuplicateTags
      else if ''<any>'' \<in> temp_set then Inl AnyTag
      else Inr (remdups (map up tags)))"

text \<open>
  \<^verbatim>\<open>match_tags(search, tags)\<close>. \<open>search\<close> is a container tested with \<^verbatim>\<open>in\<close>; \<open>tags\<close> is
  iterated, so it is the list of its elements in iteration order. \<open>matched\<close> is
  \<^verbatim>\<open>None\<close>, \<^verbatim>\<open>False\<close> or \<^verbatim>\<open>True\<close>. \<open>up\<close> is \<^verbatim>\<open>str.upper\<close>.
\<close>

fun match_loop :: "(string \<Rightarrow> string) \<Rightarrow> string set \<Rightarrow> bool \<Rightarrow> bool option \<Rightarrow> string list \<Rightarrow> bool" where
  "match_loop up search has_all matched [] = (matched \<noteq> Some False)"
| "match_loop up search has_all matched (t # ts) =
     (let tag = up t; start = take 1 tag in
      if start = ''!'' \<or> start = ''-'' then
        (if drop 1 tag \<in> search then False
         else match_loop up search has_all matched ts)
      else if start = ''+'' then
        (if drop 1 tag \<notin> search then False
         else match_loop up search has_all matched ts)
      else
        (let matched1 = (if matched = None then Some False else matched);
             matched2 = (if has_all \<or> tag \<in> search then Some True else matched1)
         in match_loop up search has_all matched2 ts))"

definition match_tags :: "(string \<Rightarrow> string) \<Rightarrow> string set \<Rightarrow> string list \<Rightarrow> bool" where
  "match_tags up search tags =
     (if tags = [] then True
      else match_loop up search (''<ALL>'' \<in> search) None tags)"

text \<open>
  What the properties of the tag engine need of \<^verbatim>\<open>str.upper\<close>. It maps a string character
  by character: a string that starts with a sigil is mapped to the sigil and the mapped
  rest, and no other string is mapped to one that starts with a sigil. It gives no
  lower-case letter, so no string is mapped to \<open><any>\<close>.
\<close>

definition keeps_sigils :: "(string \<Rightarrow> string) \<Rightarrow> bool" where
  "keeps_sigils up \<longleftrightarrow>
     (\<forall>c \<in> set ''!-+''. \<forall>t. up (c # t) = c # up t \<and> (take 1 (up t) = [c] \<longrightarrow> take 1 t = [c]))"

definition never_any :: "(string \<Rightarrow> string) \<Rightarrow> bool" where
  "never_any up \<longleftrightarrow> (\<forall>s. up s \<noteq> ''<any>'')"

text \<open>The three kinds of candidate tag, read off the raw tag.\<close>

definition neg_sigil :: "string \<Rightarrow> bool" where
  "neg_sigil t = (take 1 t = ''!'' \<or> take 1 t = ''-'')"

definition pos_sigil :: "string \<Rightarrow> bool" where
  "pos_sigil t = (take 1 t = ''+'')"

definition plain_tag :: "string \<Rightarrow> bool" where
  "plain_tag t = (\<not> neg_sigil t \<and> \<not> pos_sigil t)"

section \<open>Binary packing\<close>

text \<open>
  \<^verbatim>\<open>Struct('>B').pack\<close> and \<^verbatim>\<open>Struct('>H').pack\<close>: one byte, and two bytes with the high byte
  first. A value out of the format's range raises \<^verbatim>\<open>struct.error\<close>.
\<close>

type_synonym byte = "8 word"

definition pack_8bit :: "nat \<Rightarrow> error + byte list" where
  "pack_8bit n = (if n < 256 then Inr [word_of_nat n] else Inl StructError)"

definition two_bytes :: "nat \<Rightarrow> byte list" where
  "two_bytes n = [word_of_nat (n div 256), word_of_nat (n mod 256)]"

definition pack_16bit :: "nat \<Rightarrow> error + byte list" where
  "pack_16bit n = (if n < 65536 then Inr (two_bytes n) else Inl StructError)"

section \<open>String dictionary\<close>

text \<open>
  \<^verbatim>\<open>BinStrDict\<close>: the dictionary \<^verbatim>\<open>_dict\<close> from strings to indices, as the list of its items
  in insertion order, and \<^verbatim>\<open>cur_index\<close>. \<open>bin_dict\<close> looks a string up.
\<close>

record BinStrDict =
  bin_items :: "(string \<times> nat) list"
  cur_index :: nat

definition bin_dict :: "BinStrDict \<Rightarrow> string \<rightharpoonup> nat" where
  "bin_dict d = map_of (bin_items d)"

definition BinStrDict_init :: BinStrDict where
  "BinStrDict_init = \<lparr>bin_items = [], cur_index = 0\<rparr>"

text \<open>
  \<^verbatim>\<open>BinStrDict.__call__\<close>. A new string is stored and \<^verbatim>\<open>cur_index\<close> advanced before the
  size check, so the dictionary keeps the entry when the call raises.
\<close>

definition BinStrDict_call :: "BinStrDict \<Rightarrow> string \<Rightarrow> BinStrDict \<times> (error + byte list)" where
  "BinStrDict_call d string =
     (case bin_dict d string of
        Some index \<Rightarrow> (d, pack_16bit index)
      | None \<Rightarrow>
          (let index = cur_index d;
               d' = d\<lparr>bin_items := bin_items d @ [(string, index)], cur_index := cur_index d + 1\<rparr>
           in if index > 2 ^ 16 then (d', Inl TooManyItems) else (d', pack_16bit index)))"

text \<open>A run of calls on one dictionary; the first exception ends the run.\<close>

fun BinStrDict_calls :: "BinStrDict \<Rightarrow> string list \<Rightarrow> error + (BinStrDict \<times> byte list list)" where
  "BinStrDict_calls d [] = Inr (d, [])"
| "BinStrDict_calls d (s # ss) =
     (case BinStrDict_call d s of
        (d', Inl e) \<Rightarrow> Inl e
      | (d', Inr bs) \<Rightarrow>
          (case BinStrDict_calls d' ss of
             Inl e \<Rightarrow> Inl e
           | Inr (d'', out) \<Rightarrow> Inr (d'', bs # out)))"

text \<open>The distinct strings of a run in first-seen order, and a string's position there.\<close>

fun first_seen :: "string list \<Rightarrow> string list \<Rightarrow> string list" where
  "first_seen seen [] = seen"
| "first_seen seen (s # ss) =
     (if s \<in> set seen then first_seen seen ss else first_seen (seen @ [s]) ss)"

fun first_index :: "'a list \<Rightarrow> 'a \<Rightarrow> nat" where
  "first_index [] x = 0"
| "first_index (y # ys) x = (if x = y then 0 else Suc (first_index ys x))"

text \<open>What a dictionary holds after registering the distinct strings \<open>seen\<close> in this order.\<close>

definition bsd_inv :: "BinStrDict \<Rightarrow> string list \<Rightarrow> bool" where
  "bsd_inv d seen \<longleftrightarrow> distinct seen \<and> cur_index d = length seen \<and>
     bin_items d = zip seen [0 ..< length seen]"

section \<open>Value and entity types\<close>

text \<open>
  The enumerations \<^verbatim>\<open>ValueTypes\<close>, \<^verbatim>\<open>EntityTypes\<close> and \<^verbatim>\<open>HelperTypes\<close>; each member
  carries its string value.
\<close>

datatype ValueTypes =
    VT_VOID | VT_CHOICES | VT_SPAWNFLAGS
  | VT_STRING | VT_BOOL | VT_INT | VT_FLOAT | VT_VEC | VT_ANGLES
  | VT_TARG_DEST | VT_TARG_DEST_CLASS | VT_TARG_SOURCE | VT_TARG_NPC_CLASS
  | VT_TARG_POINT_CLASS | VT_TARG_FILTER_NAME | VT_TARG_NODE_DEST | VT_TARG_NODE_SOURCE
  | VT_STR_SCENE | VT_STR_SOUND | VT_STR_PARTICLE | VT_STR_SPRITE | VT_STR_DECAL
  | VT_STR_MATERIAL | VT_STR_MODEL | VT_STR_VSCRIPT | VT_STR_VSCRIPT_SINGLE
  | VT_ANGLE_NEG_PITCH | VT_VEC_LINE | VT_VEC_ORIGIN | VT_VEC_AXIS
  | VT_COLOR_1 | VT_COLOR_255 | VT_SIDE_LIST
  | VT_INST_FILE | VT_INST_VAR_DEF | VT_INST_VAR_REP

fun ValueTypes_value :: "ValueTypes \<Rightarrow> string" where
  "ValueTypes_value VT_VOID = ''void''"
| "ValueTypes_value VT_CHOICES = ''choices''"
| "ValueTypes_value VT_SPAWNFLAGS = ''flags''"
| "ValueTypes_value VT_STRING = ''string''"
| "ValueTypes_value VT_BOOL = ''boolean''"
| "ValueTypes_value VT_INT = ''integer''"
| "ValueTypes_value VT_FLOAT = ''float''"
| "ValueTypes_value VT_VEC = ''vector''"
| "ValueTypes_value VT_ANGLES = ''angle''"
| "ValueTypes_value VT_TARG_DEST = ''target_destination''"
| "ValueTypes_value VT_TARG_DEST_CLASS = ''target_name_or_class''"
| "ValueTypes_value VT_TARG_SOURCE = ''target_source''"
| "ValueTypes_value VT_TARG_NPC_CLASS = ''npcclass''"
| "ValueTypes_value VT_TARG_POINT_CLASS = ''pointentityclass''"
| "ValueTypes_value VT_TARG_FILTER_NAME = ''filterclass''"
| "ValueTypes_value VT_TARG_NODE_DEST = ''node_dest''"
| "ValueTypes_value VT_TARG_NODE_SOURCE = ''node_id''"
| "ValueTypes_value VT_STR_SCENE = ''scene''"
| "ValueTypes_value VT_STR_SOUND = ''sound''"
| "ValueTypes_value VT_STR_PARTICLE = ''particlesystem''"
| "ValueTypes_value VT_STR_SPRITE = ''sprite''"
| "ValueTypes_value VT_STR_DECAL = ''decal''"
| "ValueTypes_value VT_STR_MATERIAL = ''material''"
| "ValueTypes_value VT_STR_MODEL = ''studio''"
| "ValueTypes_value VT_STR_VSCRIPT = ''scriptlist''"
| "ValueTypes_value VT_STR_VSCRIPT_SINGLE = ''script''"
| "ValueTypes_value VT_ANGLE_NEG_PITCH = ''angle_negative_pitch''"
| "ValueTypes_value VT_VEC_LINE = ''vecline''"
| "ValueTypes_value VT_VEC_ORIGIN = ''origin''"
| "ValueTypes_value VT_VEC_AXIS = ''axis''"
| "ValueTypes_value VT_COLOR_1 = ''color1''"
| "ValueTypes_value VT_COLOR_255 = ''color255''"
| "ValueTypes_value VT_SIDE_LIST = ''sidelist''"
| "ValueTypes_value VT_INST_FILE = ''instance_file''"
| "ValueTypes_value VT_INST_VAR_DEF = ''instance_parm''"
| "ValueTypes_value VT_INST_VAR_REP = ''instance_variable''"

text \<open>The members in definition order, as iterating the enumeration yields them.\<close>

definition ValueTypes_members :: "ValueTypes list" where
  "ValueTypes_members =
     [VT_VOID, VT_CHOICES, VT_SPAWNFLAGS,
      VT_STRING, VT_BOOL, VT_INT, VT_FLOAT, VT_VEC, VT_ANGLES,
      VT_TARG_DEST, VT_TARG_DEST_CLASS, VT_TARG_SOURCE, VT_TARG_NPC_CLASS,
      VT_TARG_POINT_CLASS, VT_TARG_FILTER_NAME, VT_TARG_NODE_DEST, VT_TARG_NODE_SOURCE,
      VT_STR_SCENE, VT_STR_SOUND, VT_STR_PARTICLE, VT_STR_SPRITE, VT_STR_DECAL,
      VT_STR_MATERIAL, VT_STR_MODEL, VT_STR_VSCRIPT, VT_STR_VSCRIPT_SINGLE,
      VT_ANGLE_NEG_PITCH, VT_VEC_LINE, VT_VEC_ORIGIN, VT_VEC_AXIS,
      VT_COLOR_1, VT_COLOR_255, VT_SIDE_LIST,
      VT_INST_FILE, VT_INST_VAR_DEF, VT_INST_VAR_REP]"

definition has_list :: "ValueTypes \<Rightarrow> bool" where
  "has_list t = (ValueTypes_value t \<in> set [''choices'', ''flags''])"

definition is_literal :: "ValueTypes \<Rightarrow> bool" where
  "is_literal t = (ValueTypes_value t \<in> set [''boolean'', ''integer'', ''float''])"

definition VALUE_TYPE_LOOKUP :: "string \<rightharpoonup> ValueTypes" where
  "VALUE_TYPE_LOOKUP =
     (map_of (map (\<lambda>typ. (ValueTypes_value typ, typ)) ValueTypes_members))
       (''bool'' \<mapsto> VT_BOOL, ''int'' \<mapsto> VT_INT)"

datatype EntityTypes =
  ET_BASE | ET_POINT | ET_BRUSH | ET_ROPES | ET_TRACK | ET_FILTER | ET_NPC

fun EntityTypes_value :: "EntityTypes \<Rightarrow> string" where
  "EntityTypes_value ET_BASE = ''baseclass''"
| "EntityTypes_value ET_POINT = ''pointclass''"
| "EntityTypes_value ET_BRUSH = ''solidclass''"
| "EntityTypes_value ET_ROPES = ''keyframeclass''"
| "EntityTypes_value ET_TRACK = ''moveclass''"
| "EntityTypes_value ET_FILTER = ''filterclass''"
| "EntityTypes_value ET_NPC = ''npcclass''"

datatype HelperTypes =
    HT_INHERIT | HT_HALF_GRID_SNAP
  | HT_CUBE | HT_BBOX | HT_TINT | HT_SPHERE | HT_LINE | HT_FRUSTUM | HT_CYLINDER
  | HT_BRUSH_SIDES | HT_BOUNDING_BOX_HELPER | HT_SWEPT_HULL
  | HT_SPRITE | HT_MODEL | HT_MODEL_PROP | HT_MODEL_NEG_PITCH
  | HT_ENT_SPRITE | HT_ENT_INSTANCE | HT_ENT_DECAL | HT_ENT_OVERLAY | HT_ENT_OVERLAY_WATER
  | HT_ENT_LIGHT | HT_ENT_LIGHT_CONE | HT_ENT_ROPE | HT_ENT_TRACK | HT_ENT_BREAKABLE_SURF
  | HT_ENT_WORLDTEXT | HT_EXT_APPLIES_TO | HT_EXT_ORDERBY

text \<open>\<^verbatim>\<open>HelperTypes(value)\<close>: the member with this value; \<^verbatim>\<open>ValueError\<close> is \<open>None\<close>.\<close>

definition HelperTypes_of_value :: "string \<rightharpoonup> HelperTypes" where
  "HelperTypes_of_value = map_of
     [(''base'', HT_INHERIT), (''halfgridsnap'', HT_HALF_GRID_SNAP),
      (''size'', HT_CUBE), (''bbox'', HT_BBOX), (''color'', HT_TINT), (''sphere'', HT_SPHERE),
      (''line'', HT_LINE), (''frustum'', HT_FRUSTUM), (''cylinder'', HT_CYLINDER),
      (''sidelist'', HT_BRUSH_SIDES), (''wirebox'', HT_BOUNDING_BOX_HELPER),
      (''sweptplayerhull'', HT_SWEPT_HULL),
      (''iconsprite'', HT_SPRITE), (''studio'', HT_MODEL), (''studioprop'', HT_MODEL_PROP),
      (''lightprop'', HT_MODEL_NEG_PITCH),
      (''sprite'', HT_ENT_SPRITE), (''instance'', HT_ENT_INSTANCE), (''decal'', HT_ENT_DECAL),
      (''overlay'', HT_ENT_OVERLAY), (''overlay_transition'', HT_ENT_OVERLAY_WATER),
      (''light'', HT_ENT_LIGHT), (''lightcone'', HT_ENT_LIGHT_CONE), (''keyframe'', HT_ENT_ROPE),
      (''animator'', HT_ENT_TRACK), (''quadbounds'', HT_ENT_BREAKABLE_SURF),
      (''worldtext'', HT_ENT_WORLDTEXT),
      (''appliesto'', HT_EXT_APPLIES_TO), (''orderby'', HT_EXT_ORDERBY)]"

text \<open>
  The orders used by the binary format, \<^verbatim>\<open>VALUE_TYPE_ORDER\<close> and \<^verbatim>\<open>ENTITY_TYPE_ORDER\<close>,
  and the index dictionaries built from them with \<^verbatim>\<open>enumerate\<close>.
\<close>

definition VALUE_TYPE_ORDER :: "ValueTypes list" where
  "VALUE_TYPE_ORDER =
     [VT_VOID, VT_CHOICES, VT_SPAWNFLAGS,
      VT_STRING, VT_BOOL, VT_INT, VT_FLOAT, VT_VEC, VT_ANGLES,
      VT_TARG_DEST, VT_TARG_DEST_CLASS, VT_TARG_SOURCE, VT_TARG_NPC_CLASS,
      VT_TARG_POINT_CLASS, VT_TARG_FILTER_NAME, VT_TARG_NODE_DEST, VT_TARG_NODE_SOURCE,
      VT_STR_SCENE, VT_STR_SOUND, VT_STR_PARTICLE, VT_STR_SPRITE, VT_STR_DECAL,
      VT_STR_MATERIAL, VT_STR_MODEL, VT_STR_VSCRIPT,
      VT_ANGLE_NEG_PITCH, VT_VEC_LINE, VT_VEC_ORIGIN, VT_VEC_AXIS,
      VT_COLOR_1, VT_COLOR_255, VT_SIDE_LIST,
      VT_INST_FILE, VT_INST_VAR_DEF, VT_INST_VAR_REP,
      VT_STR_VSCRIPT_SINGLE]"

definition ENTITY_TYPE_ORDER :: "EntityTypes list" where
  "ENTITY_TYPE_ORDER = [ET_BASE, ET_POINT, ET_BRUSH, ET_ROPES, ET_TRACK, ET_FILTER, ET_NPC]"

definition VALUE_TYPE_INDEX :: "ValueTypes \<rightharpoonup> nat" where
  "VALUE_TYPE_INDEX = map_of (zip VALUE_TYPE_ORDER [0 ..< length VALUE_TYPE_ORDER])"

definition ENTITY_TYPE_INDEX :: "EntityTypes \<rightharpoonup> nat" where
  "ENTITY_TYPE_INDEX = map_of (zip ENTITY_TYPE_ORDER [0 ..< length ENTITY_TYPE_ORDER])"

section \<open>Python values, frozensets and dictionaries\<close>

text \<open>
  A dictionary is the list of its items in insertion order: storing under a key that is
  present replaces the value in place (the first key object is kept), a new key is appended.
  A dictionary keyed by frozensets compares its keys as sets.
\<close>

fun fs_lookup :: "(frozenset \<times> 'v) list \<Rightarrow> frozenset \<Rightarrow> 'v option" where
  "fs_lookup [] k = None"
| "fs_lookup ((k', v) # m) k = (if set k' = set k then Some v else fs_lookup m k)"

fun fs_update :: "(frozenset \<times> 'v) list \<Rightarrow> frozenset \<Rightarrow> 'v \<Rightarrow> (frozenset \<times> 'v) list" where
  "fs_update [] k v = [(k, v)]"
| "fs_update ((k', v') # m) k v =
     (if set k' = set k then (k', v) # m else (k', v') # fs_update m k v)"

fun dict_update :: "('k \<times> 'v) list \<Rightarrow> 'k \<Rightarrow> 'v \<Rightarrow> ('k \<times> 'v) list" where
  "dict_update [] k v = [(k, v)]"
| "dict_update ((k', v') # m) k v =
     (if k' = k then (k', v) # m else (k', v') # dict_update m k v)"

text \<open>\<^verbatim>\<open>s.add(x)\<close> on a set kept as the list of its elements in insertion order.\<close>

definition set_add :: "'a list \<Rightarrow> 'a \<Rightarrow> 'a list" where
  "set_add xs x = (if x \<in> set xs then xs else xs @ [x])"

text \<open>
  The elements of the tuples in a keyvalue's \<^verbatim>\<open>val_list\<close>, and the values the
  \<^verbatim>\<open>readonly\<close> attribute takes. \<^verbatim>\<open>==\<close> follows Python: a \<^verbatim>\<open>bool\<close> equals the integer 0 or
  1, values of unrelated types are unequal, tuples are equal when they have the same length
  and equal elements.
\<close>

datatype pyval = PyInt int | PyStr string | PyBool bool | PyTags frozenset

fun py_eq :: "pyval \<Rightarrow> pyval \<Rightarrow> bool" where
  "py_eq (PyInt i) (PyInt j) = (i = j)"
| "py_eq (PyInt i) (PyBool b) = (i = (if b then 1 else 0))"
| "py_eq (PyBool b) (PyInt i) = (i = (if b then 1 else 0))"
| "py_eq (PyBool a) (PyBool b) = (a = b)"
| "py_eq (PyStr s) (PyStr t) = (s = t)"
| "py_eq (PyTags s) (PyTags t) = (set s = set t)"
| "py_eq _ _ = False"

fun tuple_eq :: "pyval list \<Rightarrow> pyval list \<Rightarrow> bool" where
  "tuple_eq [] [] = True"
| "tuple_eq (x # xs) (y # ys) = (py_eq x y \<and> tuple_eq xs ys)"
| "tuple_eq _ _ = False"

text \<open>Truthiness of a value, as \<^verbatim>\<open>if value:\<close> tests it.\<close>

fun py_truthy :: "pyval \<Rightarrow> bool" where
  "py_truthy (PyInt i) = (i \<noteq> 0)"
| "py_truthy (PyStr s) = (s \<noteq> [])"
| "py_truthy (PyBool b) = b"
| "py_truthy (PyTags t) = (t \<noteq> [])"

section \<open>Leaf records\<close>

text \<open>
  \<^verbatim>\<open>KeyValues\<close> and \<^verbatim>\<open>IODef\<close>. \<^verbatim>\<open>val_list\<close> is \<^verbatim>\<open>None\<close> or a list of tuples.
\<close>

record KeyValues =
  kv_name :: string
  kv_type :: ValueTypes
  kv_default :: string
  kv_disp_name :: string
  kv_desc :: string
  kv_val_list :: "pyval list list option"
  kv_readonly :: pyval

text \<open>\<^verbatim>\<open>KeyValues(name, val_type, disp_name, default, doc, val_list, is_readonly)\<close>.\<close>

definition KeyValues_new ::
  "string \<Rightarrow> ValueTypes \<Rightarrow> string \<Rightarrow> string \<Rightarrow> string \<Rightarrow> pyval list list option \<Rightarrow> pyval \<Rightarrow> KeyValues" where
  "KeyValues_new name val_type disp_name dflt doc val_list is_readonly =
     \<lparr>kv_name = name, kv_type = val_type, kv_default = dflt, kv_disp_name = disp_name,
      kv_desc = doc, kv_val_list = val_list, kv_readonly = is_readonly\<rparr>"

text \<open>\<^verbatim>\<open>KeyValues.copy\<close>: an empty value list is falsy and is copied as \<^verbatim>\<open>None\<close>.\<close>

definition KeyValues_copy :: "KeyValues \<Rightarrow> KeyValues" where
  "KeyValues_copy kv =
     KeyValues_new (kv_name kv) (kv_type kv) (kv_disp_name kv) (kv_default kv) (kv_desc kv)
       (case kv_val_list kv of
          None \<Rightarrow> None
        | Some vl \<Rightarrow> if vl \<noteq> [] then Some vl else None)
       (kv_readonly kv)"

record IODef =
  iodef_name :: string
  iodef_type :: ValueTypes
  iodef_desc :: string

definition IODef_new :: "string \<Rightarrow> ValueTypes \<Rightarrow> string \<Rightarrow> IODef" where
  "IODef_new name val_type description = \<lparr>iodef_name = name, iodef_type = val_type, iodef_desc = description\<rparr>"

definition IODef_copy :: "IODef \<Rightarrow> IODef" where
  "IODef_copy io = IODef_new (iodef_name io) (iodef_type io) (iodef_desc io)"

section \<open>Entity definitions\<close>

text \<open>
  \<^verbatim>\<open>EntityDef\<close>. A base is a name before resolution and an entity object after it; \<open>'r\<close> is
  what stands for the object. The three attribute dictionaries map a case-folded name to a
  dictionary from tag sets to records.
\<close>

datatype 'r base = BaseStr string | BaseEnt 'r

type_synonym 'v tagmap = "(frozenset \<times> 'v) list"

datatype 'r EntityDef = EntityDef
  (ent_type: EntityTypes)
  (classname: string)
  (keyvalues: "(string \<times> KeyValues tagmap) list")
  (inputs: "(string \<times> IODef tagmap) list")
  (outputs: "(string \<times> IODef tagmap) list")
  (kv_order: "string list")
  (bases: "'r base list")
  (helpers: "(HelperTypes \<times> string list) list")
  (desc: string)

text \<open>\<^verbatim>\<open>EntityDef(typ)\<close>.\<close>

definition EntityDef_new :: "EntityTypes \<Rightarrow> 'r EntityDef" where
  "EntityDef_new typ = EntityDef typ [] [] [] [] [] [] [] []"

text \<open>Assignments to one attribute of an entity.\<close>

definition set_classname :: "string \<Rightarrow> 'r EntityDef \<Rightarrow> 'r EntityDef" where
  "set_classname v e = EntityDef (ent_type e) v (keyvalues e) (inputs e) (outputs e)
     (kv_order e) (bases e) (helpers e) (desc e)"

definition set_keyvalues :: "(string \<times> KeyValues tagmap) list \<Rightarrow> 'r EntityDef \<Rightarrow> 'r EntityDef" where
  "set_keyvalues v e = EntityDef (ent_type e) (classname e) v (inputs e) (outputs e)
     (kv_order e) (bases e) (helpers e) (desc e)"

definition set_inputs :: "(string \<times> IODef tagmap) list \<Rightarrow> 'r EntityDef \<Rightarrow> 'r EntityDef" where
  "set_inputs v e = EntityDef (ent_type e) (classname e) (keyvalues e) v (outputs e)
     (kv_order e) (bases e) (helpers e) (desc e)"

definition set_outputs :: "(string \<times> IODef tagmap) list \<Rightarrow> 'r EntityDef \<Rightarrow> 'r EntityDef" where
  "set_outputs v e = EntityDef (ent_type e) (classname e) (keyvalues e) (inputs e) v
     (kv_order e) (bases e) (helpers e) (desc e)"

definition set_kv_order :: "string list \<Rightarrow> 'r EntityDef \<Rightarrow> 'r EntityDef" where
  "set_kv_order v e = EntityDef (ent_type e) (classname e) (keyvalues e) (inputs e) (outputs e)
     v (bases e) (helpers e) (desc e)"

definition set_bases :: "'r base list \<Rightarrow> 'r EntityDef \<Rightarrow> 'r EntityDef" where
  "set_bases v e = EntityDef (ent_type e) (classname e) (keyvalues e) (inputs e) (outputs e)
     (kv_order e) v (helpers e) (desc e)"

definition set_helpers :: "(HelperTypes \<times> string list) list \<Rightarrow> 'r EntityDef \<Rightarrow> 'r EntityDef" where
  "set_helpers v e = EntityDef (ent_type e) (classname e) (keyvalues e) (inputs e) (outputs e)
     (kv_order e) (bases e) v (desc e)"

definition set_desc :: "string \<Rightarrow> 'r EntityDef \<Rightarrow> 'r EntityDef" where
  "set_desc v e = EntityDef (ent_type e) (classname e) (keyvalues e) (inputs e) (outputs e)
     (kv_order e) (bases e) (helpers e) v"

section \<open>Entity view\<close>

text \<open>
  \<^verbatim>\<open>_EntityView\<close>. The view only reads the entity it is bound to and the entities reachable
  through resolved bases, so an entity is given here with the entities of its base list
  unfolded in place: \<open>EntObj\<close> is an entity whose resolved bases are entities of this kind.
\<close>

datatype EntObj = EntObj "EntObj EntityDef"

text \<open>The key of \<^verbatim>\<open>__getitem__\<close>: a name, or a pair of a name and search tags.\<close>


datatype view_key = KeyName string | KeyTagged string "string list"

text \<open>
  \<^verbatim>\<open>sorted(tag_map.items(), key=lambda t: len(t[0]), reverse=True)\<close>: a stable sort, larger
  tag sets first.
\<close>

definition sorted_items :: "'v tagmap \<Rightarrow> 'v tagmap" where
  "sorted_items tag_map = sort_key (\<lambda>t. - int (length (remdups (fst t)))) tag_map"

fun first_match :: "string set \<Rightarrow> 'v tagmap \<Rightarrow> 'v option" where
  "first_match search_tags [] = None"
| "first_match search_tags ((tags, v) # items) =
     (if match_tags upper search_tags tags then Some v else first_match search_tags items)"

text \<open>
  The loop of \<^verbatim>\<open>__getitem__\<close> over the generator \<^verbatim>\<open>_maps\<close>: the entity's own dictionary,
  then those of each base in turn, depth first. \<open>None\<close> means that the walk ended without
  a match. Reaching a base that is still a name raises \<^verbatim>\<open>AttributeError\<close>.
\<close>

function (sequential) view_find ::
    "(EntObj EntityDef \<Rightarrow> (string \<times> 'v tagmap) list) \<Rightarrow> string \<Rightarrow> string set \<Rightarrow> EntObj \<Rightarrow> (error + 'v) option"
  and view_find_bases ::
    "(EntObj EntityDef \<Rightarrow> (string \<times> 'v tagmap) list) \<Rightarrow> string \<Rightarrow> string set \<Rightarrow> EntObj base list \<Rightarrow> (error + 'v) option"
where
  "view_find attr name search_tags (EntObj e) =
     (case (case map_of (attr e) name of
              None \<Rightarrow> None
            | Some tag_map \<Rightarrow> first_match search_tags (sorted_items tag_map)) of
        Some v \<Rightarrow> Some (Inr v)
      | None \<Rightarrow> view_find_bases attr name search_tags (bases e))"
| "view_find_bases attr name search_tags [] = None"
| "view_find_bases attr name search_tags (b # bs) =
     (case b of
        BaseStr s \<Rightarrow> Some (Inl AttributeError)
      | BaseEnt ent \<Rightarrow>
          (case view_find attr name search_tags ent of
             Some r \<Rightarrow> Some r
           | None \<Rightarrow> view_find_bases attr name search_tags bs))"
  by pat_completeness auto
termination
proof (relation "measure (case_sum (\<lambda>(a, n, s, e). size e) (\<lambda>(a, n, s, bs). size_list (size_base size) bs))")
  show "wf (measure (case_sum (\<lambda>(a, n, s, e). size e) (\<lambda>(a, n, s, bs). size_list (size_base size) bs)))"
    by simp
next
  fix attr :: "EntObj EntityDef \<Rightarrow> (string \<times> 'v tagmap) list" and name search_tags e
  show "(Inr (attr, name, search_tags, bases e), Inl (attr, name, search_tags, EntObj e))
        \<in> measure (case_sum (\<lambda>(a, n, s, e). size e) (\<lambda>(a, n, s, bs). size_list (size_base size) bs))"
    by (cases e) simp
qed auto

definition view_getitem ::
    "(EntObj EntityDef \<Rightarrow> (string \<times> 'v tagmap) list) \<Rightarrow> EntObj \<Rightarrow> view_key \<Rightarrow> error + 'v" where
  "view_getitem attr ent key =
     (let (name, search_tags) =
            (case key of
               KeyName n \<Rightarrow> (n, {})
             | KeyTagged n ts \<Rightarrow> (n, set (map casefold ts)));
          name = casefold name
      in case view_find attr name search_tags ent of
           Some r \<Rightarrow> r
         | None \<Rightarrow> Inl KeyError)"

section \<open>Database\<close>

text \<open>
  Entities are objects: a base list refers to them, and \<^verbatim>\<open>collapse_bases\<close> changes them in
  place. An object is an address, and the heap gives the entity stored there.
  \<^verbatim>\<open>FGD.entities\<close> maps a case-folded classname to an object.
\<close>

type_synonym ref = nat

type_synonym heap = "ref \<Rightarrow> ref EntityDef"

record FGD =
  parse_list :: "string list"
  entities :: "(string \<times> ref) list"
  map_size_min :: int
  map_size_max :: int

definition FGD_new :: FGD where
  "FGD_new = \<lparr>parse_list = [], entities = [], map_size_min = 0, map_size_max = 0\<rparr>"

text \<open>\<^verbatim>\<open>FGD.__getitem__\<close> and \<^verbatim>\<open>FGD.__iter__\<close>.\<close>

definition FGD_getitem :: "FGD \<Rightarrow> string \<Rightarrow> error + ref" where
  "FGD_getitem fgd cn =
     (case map_of (entities fgd) (casefold cn) of None \<Rightarrow> Inl KeyError | Some r \<Rightarrow> Inr r)"

definition FGD_iter :: "FGD \<Rightarrow> ref list" where
  "FGD_iter fgd = map snd (entities fgd)"

subsection \<open>\<^verbatim>\<open>apply_bases\<close>\<close>

text \<open>
  The inner loop fills the new base list, which already replaces the entity's list when an
  unknown base raises.
\<close>

fun resolve_bases :: "FGD \<Rightarrow> ref base list \<Rightarrow> ref base list \<Rightarrow> ref base list \<times> error option" where
  "resolve_bases fgd [] new_bases = (new_bases, None)"
| "resolve_bases fgd (b # orig_bases) new_bases =
     (case b of
        BaseEnt r \<Rightarrow> resolve_bases fgd orig_bases (new_bases @ [BaseEnt r])
      | BaseStr s \<Rightarrow>
          (case FGD_getitem fgd s of
             Inr r \<Rightarrow> resolve_bases fgd orig_bases (new_bases @ [BaseEnt r])
           | Inl e \<Rightarrow> (new_bases, Some UnknownBase)))"

fun apply_bases_loop :: "FGD \<Rightarrow> ref list \<Rightarrow> heap \<Rightarrow> heap \<times> error option" where
  "apply_bases_loop fgd [] h = (h, None)"
| "apply_bases_loop fgd (ent # ents) h =
     (case resolve_bases fgd (bases (h ent)) [] of
        (new_bases, Some e) \<Rightarrow> (h(ent := set_bases new_bases (h ent)), Some e)
      | (new_bases, None) \<Rightarrow> apply_bases_loop fgd ents (h(ent := set_bases new_bases (h ent))))"

definition apply_bases :: "FGD \<Rightarrow> heap \<Rightarrow> heap \<times> error option" where
  "apply_bases fgd h = apply_bases_loop fgd (FGD_iter fgd) h"

subsection \<open>\<^verbatim>\<open>collapse_bases\<close>\<close>

text \<open>\<^verbatim>\<open>if val not in targ_list: targ_list.append(val)\<close>.\<close>

definition append_new :: "pyval list list \<Rightarrow> pyval list \<Rightarrow> pyval list list" where
  "append_new targ_list val =
     (if list_ex (tuple_eq val) targ_list then targ_list else targ_list @ [val])"

text \<open>
  The body of the loop over \<^verbatim>\<open>base_kv_map.items()\<close>. Iterating a value list that is
  \<^verbatim>\<open>None\<close> raises \<^verbatim>\<open>TypeError\<close>.
\<close>

definition merge_kv :: "KeyValues tagmap \<Rightarrow> frozenset \<times> KeyValues \<Rightarrow> error + KeyValues tagmap" where
  "merge_kv ent_kv_map item =
     (case item of (tag, kv) \<Rightarrow>
        (case fs_lookup ent_kv_map tag of
           None \<Rightarrow> Inr (fs_update ent_kv_map tag (KeyValues_copy kv))
         | Some ent_kv \<Rightarrow>
             if has_list (kv_type kv) then
               (case kv_val_list ent_kv of
                  None \<Rightarrow> Inr ent_kv_map
                | Some targ_list \<Rightarrow>
                    if targ_list = [] then Inr ent_kv_map
                    else
                      (case kv_val_list kv of
                         None \<Rightarrow> Inl TypeError
                       | Some vals \<Rightarrow>
                           Inr (fs_update ent_kv_map tag
                                  (ent_kv\<lparr>kv_val_list := Some (foldl append_new targ_list vals)\<rparr>))))
             else Inr ent_kv_map))"

fun merge_tag_kvs :: "KeyValues tagmap \<Rightarrow> KeyValues tagmap \<Rightarrow> KeyValues tagmap \<times> error option" where
  "merge_tag_kvs ent_kv_map [] = (ent_kv_map, None)"
| "merge_tag_kvs ent_kv_map (item # items) =
     (case merge_kv ent_kv_map item of
        Inl e \<Rightarrow> (ent_kv_map, Some e)
      | Inr m \<Rightarrow> merge_tag_kvs m items)"

text \<open>\<^verbatim>\<open>d.setdefault(name, {})\<close> on a dictionary of tag maps: the dictionary and the tag map.\<close>

definition setdefault_empty :: "(string \<times> 'v tagmap) list \<Rightarrow> string \<Rightarrow> (string \<times> 'v tagmap) list \<times> 'v tagmap" where
  "setdefault_empty d name =
     (case map_of d name of
        None \<Rightarrow> (dict_update d name [], [])
      | Some m \<Rightarrow> (d, m))"

text \<open>
  The loop over \<^verbatim>\<open>base.keyvalues.items()\<close>. The state is the entity's keyvalue dictionary,
  \<^verbatim>\<open>base_kv\<close> and \<^verbatim>\<open>keyvalue_names\<close>.
\<close>

fun merge_keyvalues ::
    "(string \<times> KeyValues tagmap) list \<Rightarrow> (string \<times> KeyValues tagmap) list \<times> string list \<times> string list
     \<Rightarrow> ((string \<times> KeyValues tagmap) list \<times> string list \<times> string list) \<times> error option" where
  "merge_keyvalues [] st = (st, None)"
| "merge_keyvalues ((name, base_kv_map) # items) (ent_kvs, base_kv, keyvalue_names) =
     (case setdefault_empty ent_kvs name of (ent_kvs1, ent_kv_map) \<Rightarrow>
        (case merge_tag_kvs ent_kv_map base_kv_map of
           (m, Some e) \<Rightarrow> ((dict_update ent_kvs1 name m, base_kv, keyvalue_names), Some e)
         | (m, None) \<Rightarrow>
             if name \<notin> set keyvalue_names
             then merge_keyvalues items
                    (dict_update ent_kvs1 name m, base_kv @ [name], set_add keyvalue_names name)
             else merge_keyvalues items (dict_update ent_kvs1 name m, base_kv, keyvalue_names)))"

fun merge_tag_ios :: "IODef tagmap \<Rightarrow> IODef tagmap \<Rightarrow> IODef tagmap" where
  "merge_tag_ios ent_tags_map [] = ent_tags_map"
| "merge_tag_ios ent_tags_map ((tag, io_def) # items) =
     (case fs_lookup ent_tags_map tag of
        None \<Rightarrow> merge_tag_ios (fs_update ent_tags_map tag (IODef_copy io_def)) items
      | Some v \<Rightarrow> merge_tag_ios ent_tags_map items)"

fun merge_io :: "(string \<times> IODef tagmap) list \<Rightarrow> (string \<times> IODef tagmap) list \<Rightarrow> (string \<times> IODef tagmap) list" where
  "merge_io [] ent_map = ent_map"
| "merge_io ((name, base_tags_map) # items) ent_map =
     (case setdefault_empty ent_map name of (ent_map1, ent_tags_map) \<Rightarrow>
        merge_io items (dict_update ent_map1 name (merge_tag_ios ent_tags_map base_tags_map)))"

text \<open>
  The loop \<^verbatim>\<open>for base in ent.bases\<close> of the collapse step. The entity is updated in the
  heap as the loop goes, so what was merged before an exception stays merged.
\<close>

fun collapse_from_bases ::
    "ref \<Rightarrow> ref base list \<Rightarrow> heap \<times> string list \<times> string list
     \<Rightarrow> (heap \<times> string list \<times> string list) \<times> error option" where
  "collapse_from_bases ent [] st = (st, None)"
| "collapse_from_bases ent (b # bs) (h, base_kv, keyvalue_names) =
     (case b of
        BaseStr s \<Rightarrow> ((h, base_kv, keyvalue_names), Some AttributeError)
      | BaseEnt r \<Rightarrow>
          (case merge_keyvalues (keyvalues (h r)) (keyvalues (h ent), base_kv, keyvalue_names) of
             ((kvs, base_kv1, names1), Some e) \<Rightarrow>
               ((h(ent := set_keyvalues kvs (h ent)), base_kv1, names1), Some e)
           | ((kvs, base_kv1, names1), None) \<Rightarrow>
               (let h1 = h(ent := set_keyvalues kvs (h ent));
                    h2 = h1(ent := set_inputs (merge_io (inputs (h1 r)) (inputs (h1 ent))) (h1 ent));
                    h3 = h2(ent := set_outputs (merge_io (outputs (h2 r)) (outputs (h2 ent))) (h2 ent))
                in collapse_from_bases ent bs (h3, base_kv1, names1))))"

text \<open>
  The loop over \<^verbatim>\<open>ent.bases\<close> that decides whether the entity is ready. The state is
  \<^verbatim>\<open>deferred\<close> and \<^verbatim>\<open>ready\<close>.
\<close>

fun scan_bases :: "ref list \<Rightarrow> ref base list \<Rightarrow> ref list \<times> bool \<Rightarrow> (ref list \<times> bool) \<times> error option" where
  "scan_bases done [] st = (st, None)"
| "scan_bases done (b # bs) (deferred, ready) =
     (case b of
        BaseStr s \<Rightarrow> ((deferred, ready), Some UnevaluatedBase)
      | BaseEnt r \<Rightarrow>
          if r \<notin> set done then scan_bases done bs (set_add deferred r, False)
          else scan_bases done bs (deferred, ready))"

text \<open>The body of \<^verbatim>\<open>for ent in todo\<close>. The state is the heap, \<^verbatim>\<open>done\<close> and \<^verbatim>\<open>deferred\<close>.\<close>

definition process_ent :: "ref \<Rightarrow> heap \<times> ref list \<times> ref list \<Rightarrow> (heap \<times> ref list \<times> ref list) \<times> error option" where
  "process_ent ent st =
     (case st of (h, done, deferred) \<Rightarrow>
        if bases (h ent) = [] then ((h, set_add done ent, deferred), None)
        else
          (case scan_bases done (bases (h ent)) (deferred, True) of
             ((deferred1, ready), Some e) \<Rightarrow> ((h, done, deferred1), Some e)
           | ((deferred1, ready), None) \<Rightarrow>
               if \<not> ready then ((h, done, set_add deferred1 ent), None)
               else
                 (case collapse_from_bases ent (bases (h ent)) (h, [], remdups (kv_order (h ent))) of
                    ((h1, base_kv, names), Some e) \<Rightarrow> ((h1, done, deferred1), Some e)
                  | ((h1, base_kv, names), None) \<Rightarrow>
                      (let h2 = h1(ent := set_kv_order (base_kv @ kv_order (h1 ent)) (h1 ent));
                           h3 = h2(ent := set_bases [] (h2 ent))
                       in ((h3, set_add done ent, deferred1), None)))))"

fun run_pass :: "ref list \<Rightarrow> heap \<times> ref list \<times> ref list \<Rightarrow> (heap \<times> ref list \<times> ref list) \<times> error option" where
  "run_pass [] st = (st, None)"
| "run_pass (ent # ents) st =
     (case process_ent ent st of
        (st1, Some e) \<Rightarrow> (st1, Some e)
      | (st1, None) \<Rightarrow> run_pass ents st1)"

text \<open>
  The \<^verbatim>\<open>while todo\<close> loop. A set of entities is the list of its elements in insertion
  order; \<open>iter_order\<close> gives the order in which a set built by these insertions is iterated,
  which for a set of objects depends on their addresses. The loop is given fuel, one unit
  per pass, and \<open>OutOfFuel\<close> says that the passes allowed did not end it.
\<close>

datatype outcome = Returned | Raised error | OutOfFuel

fun collapse_loop :: "nat \<Rightarrow> (ref list \<Rightarrow> ref list) \<Rightarrow> heap \<Rightarrow> ref list \<Rightarrow> ref list \<Rightarrow> heap \<times> outcome" where
  "collapse_loop 0 iter_order h todo done = (h, if todo = [] then Returned else OutOfFuel)"
| "collapse_loop (Suc fuel) iter_order h todo done =
     (if todo = [] then (h, Returned)
      else
        (case run_pass (iter_order todo) (h, done, []) of
           ((h1, done1, deferred), Some e) \<Rightarrow> (h1, Raised e)
         | ((h1, done1, deferred), None) \<Rightarrow>
             if set todo = set deferred then (h1, Raised LoopInBases)
             else collapse_loop fuel iter_order h1 deferred done1))"

definition collapse_bases :: "nat \<Rightarrow> (ref list \<Rightarrow> ref list) \<Rightarrow> FGD \<Rightarrow> heap \<Rightarrow> heap \<times> outcome" where
  "collapse_bases fuel iter_order fgd h =
     collapse_loop fuel iter_order h (remdups (FGD_iter fgd)) []"

section \<open>Example databases\<close>

text \<open>
  The database of the specification's example: \<open>Base1\<close> at address 0 defines the keyvalue
  \<open>other\<close>, \<open>my_ent\<close> at address 1 names \<open>Base1\<close> as its base and defines \<open>field\<close>.
\<close>

definition example_base1 :: "ref EntityDef" where
  "example_base1 = EntityDef ET_BASE ''Base1''
     [(''other'', [([], KeyValues_new ''other'' VT_STRING ''Other'' ''x'' [] None (PyBool False))])]
     [] [] [''other''] [] [] []"

definition example_my_ent :: "ref EntityDef" where
  "example_my_ent = EntityDef ET_POINT ''my_ent''
     [(''field'', [([], KeyValues_new ''field'' VT_INT ''Field'' ''5'' [] None (PyBool False))])]
     [] [] [''field''] [BaseStr ''Base1''] [] ''desc''"

definition example_heap :: heap where
  "example_heap = (\<lambda>r. EntityDef_new ET_BASE)(0 := example_base1, 1 := example_my_ent)"

definition example_fgd :: FGD where
  "example_fgd = FGD_new\<lparr>entities := [(''base1'', 0), (''my_ent'', 1)]\<rparr>"

definition example_applied :: heap where
  "example_applied = fst (apply_bases example_fgd example_heap)"

text \<open>
  A database with a base cycle between \<open>A\<close> and \<open>B\<close> (addresses 3 and 4), beside three
  entities \<open>D\<close>, \<open>E\<close> and \<open>F\<close>: \<open>F\<close> is based on \<open>E\<close>, \<open>E\<close> on \<open>D\<close>; \<open>D\<close> has a \<open>spawnflags\<close>
  keyvalue with an empty list, \<open>F\<close> has one with an entry.
\<close>

definition flags_kv :: "pyval list list \<Rightarrow> KeyValues" where
  "flags_kv vl = KeyValues_new ''spawnflags'' VT_SPAWNFLAGS ''spawnflags'' [] [] (Some vl) (PyBool False)"

definition cycle_heap :: heap where
  "cycle_heap = (\<lambda>r. EntityDef_new ET_BASE)
     (0 := EntityDef ET_BASE ''D'' [(''spawnflags'', [([], flags_kv [])])] [] [] [''spawnflags''] [] [] [],
      1 := EntityDef ET_BASE ''E'' [] [] [] [] [BaseEnt 0] [] [],
      2 := EntityDef ET_POINT ''F''
             [(''spawnflags'', [([], flags_kv [[PyInt 1, PyStr ''x'', PyBool True, PyTags []]])])]
             [] [] [''spawnflags''] [BaseEnt 1] [] [],
      3 := EntityDef ET_POINT ''A'' [] [] [] [] [BaseEnt 4] [] [],
      4 := EntityDef ET_POINT ''B'' [] [] [] [] [BaseEnt 3] [] [])"

definition cycle_fgd :: FGD where
  "cycle_fgd = FGD_new\<lparr>entities := [(''d'', 0), (''e'', 1), (''f'', 2), (''a'', 3), (''b'', 4)]\<rparr>"

text \<open>An entity with one keyvalue, stored under the tag set \<open>{HL2}\<close>.\<close>

definition tagged_ent :: EntObj where
  "tagged_ent = EntObj (EntityDef ET_POINT ''ent''
     [(''a'', [([''HL2''], KeyValues_new ''a'' VT_STRING ''A'' ''x'' [] None (PyBool False))])]
     [] [] [''a''] [] [] [])"

section \<open>Tokens\<close>

text \<open>
  Modelled from the spec: the lexer (\<^verbatim>\<open>srctools.tokenizer\<close>) is not among the sources. It is
  consumed as an iterator over classified tokens, so a tokenizer is the list of the tokens
  it has not yet produced, each with its text. Calling it gives the next token, and
  \<^verbatim>\<open>EOF\<close> once the list is empty; iterating over it ends at \<^verbatim>\<open>EOF\<close>; \<^verbatim>\<open>expect\<close> skips
  newlines and then wants a token of the given kind. A syntax error made by
  \<^verbatim>\<open>tok.error\<close> is \<open>SyntaxError\<close>.
\<close>

datatype Token =
    EOF | STRING | NEWLINE | PAREN_ARGS | PROP_FLAG | BRACE_OPEN | BRACE_CLOSE
  | BRACK_OPEN | BRACK_CLOSE | COLON | EQUALS | PLUS | COMMA

type_synonym tokens = "(Token \<times> string) list"

definition tok_call :: "tokens \<Rightarrow> (Token \<times> string) \<times> tokens" where
  "tok_call ts = (case ts of [] \<Rightarrow> ((EOF, []), []) | t # rest \<Rightarrow> (t, rest))"

fun tok_expect :: "Token \<Rightarrow> tokens \<Rightarrow> error + (string \<times> tokens)" where
  "tok_expect token [] = (if token = EOF then Inr ([], []) else Inl SyntaxError)"
| "tok_expect token ((t, v) # rest) =
     (if t = NEWLINE then tok_expect token rest
      else if t = token then Inr (v, rest)
      else Inl SyntaxError)"

section \<open>Text helpers of the parser\<close>

text \<open>
  \<^verbatim>\<open>s.strip()\<close>, which removes the characters that \<^verbatim>\<open>str.isspace\<close> accepts (these are the
  ones below code point 256), and \<^verbatim>\<open>s.split(sep)\<close> for a separator of one character.
\<close>

definition whitespace :: string where
  "whitespace =
     [CHR 0x09, CHR 0x0A, CHR 0x0B, CHR 0x0C, CHR 0x0D, CHR 0x1C, CHR 0x1D, CHR 0x1E, CHR 0x1F,
      CHR '' '', CHR 0x85, CHR 0xA0]"

definition strip :: "string \<Rightarrow> string" where
  "strip s = rstrip whitespace (lstrip whitespace s)"

fun split_on :: "char \<Rightarrow> string \<Rightarrow> string list" where
  "split_on sep [] = [[]]"
| "split_on sep (c # cs) =
     (if c = sep then [] # split_on sep cs
      else (case split_on sep cs of
              [] \<Rightarrow> [[c]]
            | w # ws \<Rightarrow> (c # w) # ws))"

definition digit_value :: "char \<rightharpoonup> nat" where
  "digit_value = map_of (zip ''0123456789'' [0 ..< 10])"

text \<open>
  \<^verbatim>\<open>int(s)\<close>; \<open>None\<close> is \<^verbatim>\<open>ValueError\<close>. The string is an optional sign and decimal
  digits, between which single underscores may stand, with white space around it; the
  white space \<^verbatim>\<open>int\<close> skips is the ASCII one and the two spaces above code point 127.
  (The bound that later versions of Python put on the number of digits is not modelled.)
\<close>

definition int_whitespace :: string where
  "int_whitespace =
     [CHR 0x09, CHR 0x0A, CHR 0x0B, CHR 0x0C, CHR 0x0D, CHR '' '', CHR 0x85, CHR 0xA0]"

fun digits_value :: "nat \<Rightarrow> string \<Rightarrow> nat option" where
  "digits_value acc [] = Some acc"
| "digits_value acc [c] = map_option (\<lambda>d. 10 * acc + d) (digit_value c)"
| "digits_value acc (c # c' # cs) =
     (if c = CHR ''_'' then
        (case digit_value c' of
           None \<Rightarrow> None
         | Some d \<Rightarrow> digits_value (10 * acc + d) cs)
      else
        (case digit_value c of
           None \<Rightarrow> None
         | Some d \<Rightarrow> digits_value (10 * acc + d) (c' # cs)))"

definition py_digits :: "string \<Rightarrow> nat option" where
  "py_digits s =
     (case s of
        [] \<Rightarrow> None
      | c # cs \<Rightarrow>
          (case digit_value c of
             None \<Rightarrow> None
           | Some d \<Rightarrow> digits_value d cs))"

definition py_int :: "string \<Rightarrow> int option" where
  "py_int s =
     (case rstrip int_whitespace (lstrip int_whitespace s) of
        [] \<Rightarrow> None
      | c # cs \<Rightarrow>
          if c = CHR ''-'' then map_option (\<lambda>n. - int n) (py_digits cs)
          else if c = CHR ''+'' then map_option int (py_digits cs)
          else map_option int (py_digits (c # cs)))"

text \<open>
  \<^verbatim>\<open>int(math.log2(n))\<close> for a positive integer (the number of times \<open>n\<close> can be halved
  before it falls below 2), and the test
  \<^verbatim>\<open>math.log2(n) == round(math.log2(n))\<close>. Both are exact here. The source computes the
  logarithm in floating point, which is exact at the powers of two and tells them from the
  other numbers up to \<open>2 ^ 47\<close>; for a larger number next to a power of two (the first is
  \<open>2 ^ 49 - 1\<close>) it gives the logarithm of that power, so the source takes such a number
  for a power of two and these definitions do not.
\<close>

fun halvings :: "nat \<Rightarrow> nat \<Rightarrow> nat" where
  "halvings 0 n = 0"
| "halvings (Suc k) n = (if n < 2 then 0 else Suc (halvings k (n div 2)))"

definition floor_log2 :: "nat \<Rightarrow> nat" where
  "floor_log2 n = halvings n n"

definition is_power_of_two :: "int \<Rightarrow> bool" where
  "is_power_of_two n = (0 < n \<and> 2 ^ floor_log2 (nat n) = nat n)"

section \<open>Grammar parser\<close>

lemma tok_expect_length: "tok_expect token ts = Inr (v, rest) \<Longrightarrow> length rest \<le> length ts"
  by (induction ts) (auto split: if_splits)

text \<open>
  \<^verbatim>\<open>read_colon_list(tok, had_colon)\<close>. The state of the loop is \<open>strings\<close> and
  \<open>ready_for_string\<close>; the result is the strings, the token that ended the list, and the
  tokenizer after it.
\<close>

function read_colon_list :: "tokens \<Rightarrow> string list \<Rightarrow> bool \<Rightarrow> error + (string list \<times> Token \<times> tokens)" where
  "read_colon_list [] strings ready_for_string = Inl SyntaxError"
| "read_colon_list ((token, tok_value) # rest) strings ready_for_string =
     (if token = EOF then Inl SyntaxError
      else if token = STRING then
        (if \<not> ready_for_string then Inl SyntaxError
         else read_colon_list rest (strings @ [tok_value]) False)
      else if token = COLON then
        read_colon_list rest (if ready_for_string then strings @ [[]] else strings) True
      else if token = PLUS then
        (if ready_for_string \<or> strings = [] then Inl SyntaxError
         else
           (case tok_expect STRING rest of
              Inl e \<Rightarrow> Inl e
            | Inr (s, rest1) \<Rightarrow>
                read_colon_list rest1 (butlast strings @ [last strings @ s]) ready_for_string))
      else if ready_for_string \<and> token = NEWLINE then
        read_colon_list rest strings ready_for_string
      else if ready_for_string then Inl SyntaxError
      else Inr (strings, token, rest))"
  by pat_completeness auto

termination
  by (relation "measure (\<lambda>(ts, strings, ready). length ts)") (auto dest: tok_expect_length)


lemma read_colon_list_length:
  "read_colon_list ts strings ready = Inr (vals, t, out) \<Longrightarrow> length out < length ts"
proof (induction ts strings ready rule: read_colon_list.induct)
  case (1 strings ready)
  then show ?case by simp
next
  case (2 token tok_value rest strings ready)
  show ?case
  proof (cases "token = PLUS")
    case True
    with "2.prems" obtain s rest1 where
      e: "tok_expect STRING rest = Inr (s, rest1)" and nr: "\<not> (ready \<or> strings = [])"
      and r: "read_colon_list rest1 (butlast strings @ [last strings @ s]) ready = Inr (vals, t, out)"
      by (auto split: if_splits sum.splits)
    have "length out < length rest1"
      using "2.IH"(3) True nr e r by auto
    then show ?thesis using tok_expect_length[OF e] by simp
  next
    case False
    then show ?thesis using "2.prems" "2.IH"(1,2,4)
      by (auto split: if_splits)
  qed
qed


text \<open>
  \<^verbatim>\<open>read_tags(tok)\<close>: the tags up to the closing bracket, case-folded and without a
  trailing comma, then validated.
\<close>

fun read_tags_loop :: "tokens \<Rightarrow> string list \<Rightarrow> error + (string list \<times> tokens)" where
  "read_tags_loop [] tags = Inl SyntaxError"
| "read_tags_loop ((token, v) # rest) tags =
     (if token = STRING then read_tags_loop rest (tags @ [rstrip '','' (casefold v)])
      else if token = BRACK_CLOSE then Inr (tags, rest)
      else Inl SyntaxError)"

definition read_tags :: "tokens \<Rightarrow> error + (frozenset \<times> tokens)" where
  "read_tags ts =
     (case read_tags_loop ts [] of
        Inl e \<Rightarrow> Inl e
      | Inr (tags, rest) \<Rightarrow>
          (case validate_tags upper tags of
             Inl e \<Rightarrow> Inl e
           | Inr fs \<Rightarrow> Inr (fs, rest)))"

text \<open>
  The header of \<^verbatim>\<open>EntityDef.parse\<close>: helpers and bases up to the \<open>=\<close> token. With
  \<open>eval_bases\<close> a base name is looked up in the database at once, and an unknown name
  raises \<^verbatim>\<open>KeyError\<close>.
\<close>

fun add_bases :: "FGD \<Rightarrow> bool \<Rightarrow> string list \<Rightarrow> ref EntityDef \<Rightarrow> error + ref EntityDef" where
  "add_bases fgd eval_bases [] entity = Inr entity"
| "add_bases fgd eval_bases (arg # args) entity =
     (case (if eval_bases then map_sum id BaseEnt (FGD_getitem fgd arg) else Inr (BaseStr arg)) of
        Inl e \<Rightarrow> Inl e
      | Inr b \<Rightarrow>
          add_bases fgd eval_bases args
            (if b \<notin> set (bases entity) then set_bases (bases entity @ [b]) entity else entity))"

fun parse_header ::
    "FGD \<Rightarrow> bool \<Rightarrow> tokens \<Rightarrow> HelperTypes option \<Rightarrow> ref EntityDef
     \<Rightarrow> error + (HelperTypes option \<times> ref EntityDef \<times> tokens)" where
  "parse_header fgd eval_bases [] help_type entity = Inl SyntaxError"
| "parse_header fgd eval_bases ((token, token_value) # rest) help_type entity =
     (if token = EOF then Inl SyntaxError
      else if token = NEWLINE then parse_header fgd eval_bases rest help_type entity
      else if token = STRING then
        (case help_type of
           None \<Rightarrow>
             (case HelperTypes_of_value token_value of
                None \<Rightarrow> Inl SyntaxError
              | Some ht \<Rightarrow> parse_header fgd eval_bases rest (Some ht) entity)
         | Some ht \<Rightarrow>
             parse_header fgd eval_bases rest help_type
               (set_helpers (helpers entity @ [(ht, [[]])]) entity))
      else if token = PAREN_ARGS then
        (case help_type of
           None \<Rightarrow> Inl SyntaxError
         | Some ht \<Rightarrow>
             (let args = map strip (split_on (CHR '','') token_value) in
              if ht = HT_INHERIT then
                (case add_bases fgd eval_bases args entity of
                   Inl e \<Rightarrow> Inl e
                 | Inr entity1 \<Rightarrow> parse_header fgd eval_bases rest None entity1)
              else
                parse_header fgd eval_bases rest None
                  (set_helpers (helpers entity @ [(ht, args)]) entity)))
      else if token = EQUALS then Inr (help_type, entity, rest)
      else Inl SyntaxError)"

text \<open>
  The description loop: \<open>desc\<close> is \<^verbatim>\<open>None\<close> or the list of its parts. When the token
  stream ends the loop is left without an error and without a description.
\<close>

function parse_desc :: "tokens \<Rightarrow> string list option \<Rightarrow> ref EntityDef \<Rightarrow> error + (ref EntityDef \<times> tokens)" where
  "parse_desc [] desc_parts entity = Inr (entity, [])"
| "parse_desc ((doc_token, token_value) # rest) desc_parts entity =
     (if doc_token = EOF then Inr (entity, rest)
      else if doc_token = NEWLINE then parse_desc rest desc_parts entity
      else if doc_token = COLON then
        (if desc_parts = None then parse_desc rest (Some []) entity else Inl SyntaxError)
      else if doc_token = STRING then
        (case desc_parts of
           None \<Rightarrow> Inl SyntaxError
         | Some ds \<Rightarrow>
             if ds \<noteq> [] then Inl SyntaxError
             else parse_desc rest (Some (ds @ [token_value])) entity)
      else if doc_token = PLUS then
        (case desc_parts of
           None \<Rightarrow> Inl SyntaxError
         | Some ds \<Rightarrow>
             if ds = [] then Inl SyntaxError
             else
               (case tok_expect STRING rest of
                  Inl e \<Rightarrow> Inl e
                | Inr (s, rest1) \<Rightarrow> parse_desc rest1 (Some (ds @ [s])) entity))
      else if doc_token = BRACK_OPEN then
        (case desc_parts of
           None \<Rightarrow> Inr (entity, rest)
         | Some ds \<Rightarrow> Inr (if ds \<noteq> [] then set_desc (concat ds) entity else entity, rest))
      else Inl SyntaxError)"
  by pat_completeness auto
termination
  by (relation "measure (\<lambda>(ts, d, e). length ts)") (auto dest: tok_expect_length)

lemma read_tags_loop_length:
  "read_tags_loop ts tags = Inr (out_tags, out) \<Longrightarrow> length out < length ts"
  by (induction ts tags rule: read_tags_loop.induct) (auto split: if_splits intro: less_SucI)

lemma read_tags_length: "read_tags ts = Inr (fs, out) \<Longrightarrow> length out < length ts"
  by (auto simp: read_tags_def split: sum.splits dest: read_tags_loop_length)


text \<open>
  The loop over the entries of a value list, after the opening bracket. An entry of a
  \<^verbatim>\<open>spawnflags\<close> list is the tuple \<open>(value, name, default, tags)\<close>, an entry of a
  \<^verbatim>\<open>choices\<close> list is \<open>(value, name, tags)\<close>. \<^verbatim>\<open>math.log2\<close> of a value that is not
  positive raises \<^verbatim>\<open>ValueError\<close> outside the \<^verbatim>\<open>try\<close>.
\<close>

definition spawnflag_value :: "string \<Rightarrow> error + pyval" where
  "spawnflag_value choices_value =
     (case py_int choices_value of
        None \<Rightarrow> Inl SyntaxError
      | Some i \<Rightarrow>
          if i \<le> 0 then Inl MathDomainError
          else if \<not> is_power_of_two i then Inl SyntaxError
          else Inr (PyInt i))"

definition val_list_entry ::
    "ValueTypes \<Rightarrow> pyval \<Rightarrow> string list \<Rightarrow> frozenset \<Rightarrow> error + pyval list" where
  "val_list_entry val_typ choices_value vals val_tags =
     (if length vals = 2 \<and> val_typ = VT_SPAWNFLAGS then
        Inr [choices_value, PyStr (vals ! 0), PyBool (strip (vals ! 1) = ''1''), PyTags val_tags]
      else if length vals = 1 then
        (if val_typ = VT_SPAWNFLAGS then
           Inr [choices_value, PyStr (vals ! 0), PyBool True, PyTags val_tags]
         else Inr [choices_value, PyStr (vals ! 0), PyTags val_tags])
      else Inl SyntaxError)"

function parse_val_list ::
    "ValueTypes \<Rightarrow> tokens \<Rightarrow> pyval list list \<Rightarrow> error + (pyval list list \<times> tokens)" where
  "parse_val_list val_typ [] val_list = Inl SyntaxError"
| "parse_val_list val_typ ((choices_token, choices_value) # rest) val_list =
     (if choices_token = EOF then Inl SyntaxError
      else if choices_token = NEWLINE then parse_val_list val_typ rest val_list
      else if choices_token = BRACK_CLOSE then Inr (val_list, rest)
      else if choices_token \<noteq> STRING then Inl SyntaxError
      else
        (case read_colon_list rest [] False of
           Inl e \<Rightarrow> Inl e
         | Inr (vals, end_token, rest1) \<Rightarrow>
             (case (if end_token = BRACK_OPEN then read_tags rest1 else Inr ([], rest1)) of
                Inl e \<Rightarrow> Inl e
              | Inr (val_tags, rest2) \<Rightarrow>
                  (case (if val_typ = VT_SPAWNFLAGS then spawnflag_value choices_value
                         else Inr (PyStr choices_value)) of
                     Inl e \<Rightarrow> Inl e
                   | Inr v \<Rightarrow>
                       (case val_list_entry val_typ v vals val_tags of
                          Inl e \<Rightarrow> Inl e
                        | Inr entry \<Rightarrow>
                            if end_token = BRACK_CLOSE then Inr (val_list @ [entry], rest2)
                            else parse_val_list val_typ rest2 (val_list @ [entry]))))))"
  by pat_completeness auto
termination
proof (relation "measure (\<lambda>(val_typ, ts, val_list). length ts)")
  fix val_typ :: ValueTypes and choices_token :: Token and choices_value :: string
    and rest :: tokens and val_list :: "pyval list list"
    and x2 :: "string list \<times> Token \<times> tokens" and vals x2a end_token rest1
    and x2b :: "frozenset \<times> tokens" and val_tags rest2 and x2c :: pyval and x2d :: "pyval list"
  assume rc: "read_colon_list rest [] False = Inr x2" "(vals, x2a) = x2" "(end_token, rest1) = x2a"
    and rt: "(if end_token = BRACK_OPEN then read_tags rest1 else Inr ([], rest1)) = Inr x2b"
      "(val_tags, rest2) = x2b"
  have l1: "length rest1 < length rest"
    using rc read_colon_list_length[of rest "[]" False vals end_token rest1] by auto
  have "length rest2 \<le> length rest1"
    using rt read_tags_length[of rest1 val_tags rest2] by (auto split: if_splits)
  then show "((val_typ, rest2, val_list @ [x2d]), val_typ, (choices_token, choices_value) # rest, val_list)
        \<in> measure (\<lambda>(val_typ, ts, val_list). length ts)"
    using l1 by simp
qed auto


text \<open>
  The tag list and value type that follow the name of a keyvalue, input or output:
  \<^verbatim>\<open>val_token\<close>, the raw value type, the tags, and the tokenizer after them.
\<close>

definition read_type_and_tags :: "tokens \<Rightarrow> error + (Token \<times> string \<times> frozenset \<times> tokens)" where
  "read_type_and_tags ts =
     (case tok_call ts of ((val_token, raw_value_type), rest) \<Rightarrow>
        if val_token = BRACK_OPEN then
          (case read_tags rest of
             Inl e \<Rightarrow> Inl e
           | Inr (tags, rest1) \<Rightarrow>
               (case tok_call rest1 of ((val_token1, raw_value_type1), rest2) \<Rightarrow>
                  Inr (val_token1, raw_value_type1, tags, rest2)))
        else Inr (val_token, raw_value_type, [], rest))"

text \<open>One input or output line of the body; \<open>io_type\<close> is \<open>input\<close> or \<open>output\<close>.\<close>

definition parse_io :: "ref EntityDef \<Rightarrow> string \<Rightarrow> tokens \<Rightarrow> error + (ref EntityDef \<times> tokens)" where
  "parse_io entity io_type ts =
     (case tok_expect STRING ts of
        Inl e \<Rightarrow> Inl e
      | Inr (name, rest) \<Rightarrow>
          (case read_type_and_tags rest of
             Inl e \<Rightarrow> Inl e
           | Inr (val_token, raw_value_type, tags, rest1) \<Rightarrow>
               (case VALUE_TYPE_LOOKUP (casefold (strip raw_value_type)) of
                  None \<Rightarrow> Inl SyntaxError
                | Some val_typ \<Rightarrow>
                    if has_list val_typ then Inl SyntaxError
                    else
                      (case read_colon_list rest1 [] False of
                         Inl e \<Rightarrow> Inl e
                       | Inr (attrs, token, rest2) \<Rightarrow>
                           if token = EQUALS then Inl SyntaxError
                           else if 1 < length attrs then Inl SyntaxError
                           else
                             (let io_doc = (if attrs \<noteq> [] then attrs ! 0 else []);
                                  io_def = IODef_new name val_typ io_doc
                              in if io_type = ''input'' then
                                   (case setdefault_empty (inputs entity) (casefold name) of
                                      (d, tags_map) \<Rightarrow>
                                        Inr (set_inputs
                                               (dict_update d (casefold name) (fs_update tags_map tags io_def))
                                               entity, rest2))
                                 else
                                   (case setdefault_empty (outputs entity) (casefold name) of
                                      (d, tags_map) \<Rightarrow>
                                        Inr (set_outputs
                                               (dict_update d (casefold name) (fs_update tags_map tags io_def))
                                               entity, rest2)))))))"

text \<open>
  One keyvalue line of the body; \<open>name\<close> is the case-folded first word. The flag found
  after the value type sets the boolean \<open>is_readonly\<close>, and the record is built with
  \<^verbatim>\<open>is_readonly == 'readonly'\<close>.
\<close>

definition read_kv_attrs ::
    "ValueTypes \<Rightarrow> tokens \<Rightarrow> error + (bool \<times> string list \<times> Token option \<times> tokens)" where
  "read_kv_attrs val_typ ts =
     (case tok_call ts of ((next_token, key_flag), rest) \<Rightarrow>
        if next_token = STRING then
          (case read_colon_list rest [] False of
             Inl e \<Rightarrow> Inl e
           | Inr (attrs, has_equal, rest1) \<Rightarrow>
               Inr (casefold key_flag = ''readonly'', attrs, Some has_equal, rest1))
        else if next_token = COLON then
          (case read_colon_list rest [] True of
             Inl e \<Rightarrow> Inl e
           | Inr (attrs, has_equal, rest1) \<Rightarrow> Inr (False, attrs, Some has_equal, rest1))
        else if next_token = EQUALS then
          (if val_typ = VT_SPAWNFLAGS then Inr (False, [], Some next_token, rest)
           else
             (case read_colon_list rest [] False of
                Inl e \<Rightarrow> Inl e
              | Inr (attrs, has_equal, rest1) \<Rightarrow> Inr (False, attrs, Some has_equal, rest1)))
        else if next_token = NEWLINE then Inr (False, [], Some next_token, rest)
        else Inl SyntaxError)"

definition parse_keyvalue :: "ref EntityDef \<Rightarrow> string \<Rightarrow> tokens \<Rightarrow> error + (ref EntityDef \<times> tokens)" where
  "parse_keyvalue entity name ts =
     (case read_type_and_tags ts of
        Inl e \<Rightarrow> Inl e
      | Inr (val_token, raw_value_type, tags, rest) \<Rightarrow>
          if val_token \<noteq> PAREN_ARGS then Inl SyntaxError
          else
            (case VALUE_TYPE_LOOKUP (casefold (strip raw_value_type)) of
               None \<Rightarrow> Inl SyntaxError
             | Some val_typ \<Rightarrow>
                 (case read_kv_attrs val_typ rest of
                    Inl e \<Rightarrow> Inl e
                  | Inr (is_readonly, attrs, has_equal, rest1) \<Rightarrow>
                      if 3 < length attrs then Inl SyntaxError
                      else
                        (let disp_name = (if attrs = [] then name else attrs ! 0);
                             dflt = (if 2 \<le> length attrs then attrs ! 1 else []);
                             doc = (if length attrs = 3 then attrs ! 2 else [])
                         in case (if has_list val_typ then
                                    (if has_equal \<noteq> Some EQUALS then Inl SyntaxError
                                     else
                                       (case tok_expect BRACK_OPEN rest1 of
                                          Inl e \<Rightarrow> Inl e
                                        | Inr (v, rest2) \<Rightarrow>
                                            (case parse_val_list val_typ rest2 [] of
                                               Inl e \<Rightarrow> Inl e
                                             | Inr (vl, r) \<Rightarrow> Inr (Some vl, r))))
                                  else
                                    (if has_equal = Some EQUALS then Inl SyntaxError
                                     else Inr (None, rest1))) of
                              Inl e \<Rightarrow> Inl e
                            | Inr (val_list, rest3) \<Rightarrow>
                                (case setdefault_empty (keyvalues entity) (casefold name) of
                                   (d, tags_map) \<Rightarrow>
                                     (let entity1 = set_keyvalues d entity;
                                          entity2 =
                                            (if tags_map = []
                                             then set_kv_order (kv_order entity1 @ [casefold name]) entity1
                                             else entity1);
                                          kv = KeyValues_new name val_typ disp_name dflt doc val_list
                                                 (PyBool (py_eq (PyBool is_readonly) (PyStr ''readonly'')))
                                      in Inr (set_keyvalues
                                                (dict_update d (casefold name) (fs_update tags_map tags kv))
                                                entity2, rest3)))))))"

lemma parse_val_list_length:
  "parse_val_list val_typ ts val_list = Inr (vl, out) \<Longrightarrow> length out < length ts"
proof (induction val_typ ts val_list rule: parse_val_list.induct)
  case (1 val_typ val_list)
  then show ?case by simp
next
  case (2 val_typ choices_token choices_value rest val_list)
  show ?case
  proof (cases "choices_token = STRING")
    case False
    then show ?thesis using "2.prems" "2.IH"(1) by (auto split: if_splits)
  next
    case True
    with "2.prems" obtain vals end_token rest1 val_tags rest2 v entry where
      rc: "read_colon_list rest [] False = Inr (vals, end_token, rest1)" and
      rt: "(if end_token = BRACK_OPEN then read_tags rest1 else Inr ([], rest1)) = Inr (val_tags, rest2)" and
      sv: "(if val_typ = VT_SPAWNFLAGS then spawnflag_value choices_value
            else Inr (PyStr choices_value)) = Inr v" and
      en: "val_list_entry val_typ v vals val_tags = Inr entry" and
      fin: "(if end_token = BRACK_CLOSE then Inr (val_list @ [entry], rest2)
             else parse_val_list val_typ rest2 (val_list @ [entry])) = Inr (vl, out)"
      by (auto split: if_splits sum.splits)
    have l1: "length rest1 < length rest" using rc by (rule read_colon_list_length)
    have l2: "length rest2 \<le> length rest1"
      using rt read_tags_length[of rest1 val_tags rest2] by (auto split: if_splits)
    have "length out \<le> length rest2"
    proof (cases "end_token = BRACK_CLOSE")
      case True
      then show ?thesis using fin by simp
    next
      case False
      then have "parse_val_list val_typ rest2 (val_list @ [entry]) = Inr (vl, out)"
        using fin by simp
      then have "length out < length rest2"
        using "2.IH"(2) True rc rt sv en False by auto
      then show ?thesis by simp
    qed
    then show ?thesis using l1 l2 by simp
  qed
qed

lemma tok_call_length: "tok_call ts = (t, out) \<Longrightarrow> length out \<le> length ts"
  by (auto simp: tok_call_def split: list.splits)

lemma read_type_and_tags_length:
  "read_type_and_tags ts = Inr (t, raw, tags, out) \<Longrightarrow> length out \<le> length ts"
  unfolding read_type_and_tags_def
  by (auto simp: tok_call_def split: list.splits if_splits sum.splits prod.splits
           dest!: read_tags_length)

lemma parse_io_length:
  "parse_io entity io_type ts = Inr (entity1, out) \<Longrightarrow> length out \<le> length ts"
  unfolding parse_io_def Let_def
  by (auto split: sum.splits option.splits if_splits prod.splits
           dest!: tok_expect_length read_type_and_tags_length read_colon_list_length)

lemma read_kv_attrs_length:
  "read_kv_attrs val_typ ts = Inr (ro, attrs, he, out) \<Longrightarrow> length out \<le> length ts"
  unfolding read_kv_attrs_def
  by (auto simp: tok_call_def split: list.splits if_splits sum.splits prod.splits
           dest!: read_colon_list_length)

lemma parse_keyvalue_length:
  "parse_keyvalue entity name ts = Inr (entity1, out) \<Longrightarrow> length out \<le> length ts"
  unfolding parse_keyvalue_def Let_def
  by (auto split: sum.splits option.splits if_splits prod.splits
           dest!: tok_expect_length read_type_and_tags_length read_kv_attrs_length
                  parse_val_list_length)

text \<open>
  The body loop. The entity is already in the database, so what the lines before an error
  stored stays stored; the result is the entity and either the error or the tokenizer
  after the closing bracket.
\<close>

function parse_body :: "ref EntityDef \<Rightarrow> tokens \<Rightarrow> ref EntityDef \<times> (error + tokens)" where
  "parse_body entity [] = (entity, Inr [])"
| "parse_body entity ((token, token_value) # rest) =
     (if token = EOF then (entity, Inr rest)
      else if token = BRACK_CLOSE then (entity, Inr rest)
      else if token = NEWLINE then parse_body entity rest
      else if token \<noteq> STRING then (entity, Inl SyntaxError)
      else
        (let io_type = casefold token_value in
         case (if io_type \<in> set [''input'', ''output''] then parse_io entity io_type rest
               else parse_keyvalue entity io_type rest) of
           Inl e \<Rightarrow> (entity, Inl e)
         | Inr (entity1, rest1) \<Rightarrow> parse_body entity1 rest1))"
  by pat_completeness auto
termination
proof (relation "measure (\<lambda>(entity, ts). length ts)")
  fix entity :: "ref EntityDef" and token :: Token and token_value :: string and rest :: tokens
    and x :: string and x2 :: "ref EntityDef \<times> tokens" and entity1 rest1
  assume "(if x \<in> set [''input'', ''output''] then parse_io entity x rest
           else parse_keyvalue entity x rest) = Inr x2" "(entity1, rest1) = x2"
  then have "length rest1 \<le> length rest"
    using parse_io_length[of entity x rest entity1 rest1]
          parse_keyvalue_length[of entity x rest entity1 rest1]
    by (auto split: if_splits)
  then show "((entity1, rest1), entity, (token, token_value) # rest) \<in> measure (\<lambda>(entity, ts). length ts)"
    by simp
qed auto


text \<open>
  \<^verbatim>\<open>EntityDef.parse(fgd, tok, ent_type, eval_bases)\<close>. \<open>ent\<close> is the address of the new
  entity object. The entity is stored in the database once its classname and description
  are read, before its body.
\<close>

definition EntityDef_parse ::
    "FGD \<Rightarrow> heap \<Rightarrow> ref \<Rightarrow> tokens \<Rightarrow> EntityTypes \<Rightarrow> bool \<Rightarrow> (FGD \<times> heap) \<times> (error + tokens)" where
  "EntityDef_parse fgd h ent ts typ eval_bases =
     (case parse_header fgd eval_bases ts None (EntityDef_new typ) of
        Inl e \<Rightarrow> ((fgd, h), Inl e)
      | Inr (help_type, entity, rest) \<Rightarrow>
          (let entity1 = (case help_type of
                            None \<Rightarrow> entity
                          | Some ht \<Rightarrow> set_helpers (helpers entity @ [(ht, [])]) entity)
           in case tok_expect STRING rest of
                Inl e \<Rightarrow> ((fgd, h), Inl e)
              | Inr (cn, rest1) \<Rightarrow>
                  (case parse_desc rest1 None (set_classname (strip cn) entity1) of
                     Inl e \<Rightarrow> ((fgd, h), Inl e)
                   | Inr (entity2, rest2) \<Rightarrow>
                       (let fgd1 = fgd\<lparr>entities :=
                                     dict_update (entities fgd) (casefold (classname entity2)) ent\<rparr>
                        in case parse_body entity2 rest2 of
                             (entity3, r) \<Rightarrow> ((fgd1, h(ent := entity3)), r)))))"

section \<open>Binary writer\<close>

text \<open>
  Writing goes to a file through the shared string dictionary: a writer is the dictionary
  and the bytes written so far. A step gives the new writer and the exception it raised,
  if any; what was written and registered before the exception stays.
\<close>

type_synonym writer = "BinStrDict \<times> byte list"

definition and_then :: "writer \<times> error option \<Rightarrow> (writer \<Rightarrow> writer \<times> error option) \<Rightarrow> writer \<times> error option" where
  "and_then r f = (case r of (w, Some e) \<Rightarrow> (w, Some e) | (w, None) \<Rightarrow> f w)"

text \<open>\<^verbatim>\<open>file.write(str_dict(s))\<close>, \<^verbatim>\<open>file.write(_fmt_8bit.pack(n))\<close> and the 16-bit one.\<close>

definition write_str :: "string \<Rightarrow> writer \<Rightarrow> writer \<times> error option" where
  "write_str s w =
     (case w of (d, out) \<Rightarrow>
        (case BinStrDict_call d s of
           (d1, Inl e) \<Rightarrow> ((d1, out), Some e)
         | (d1, Inr bs) \<Rightarrow> ((d1, out @ bs), None)))"

definition write_8bit :: "nat \<Rightarrow> writer \<Rightarrow> writer \<times> error option" where
  "write_8bit n w =
     (case w of (d, out) \<Rightarrow>
        (case pack_8bit n of
           Inl e \<Rightarrow> ((d, out), Some e)
         | Inr bs \<Rightarrow> ((d, out @ bs), None)))"

definition write_16bit :: "nat \<Rightarrow> writer \<Rightarrow> writer \<times> error option" where
  "write_16bit n w =
     (case w of (d, out) \<Rightarrow>
        (case pack_16bit n of
           Inl e \<Rightarrow> ((d, out), Some e)
         | Inr bs \<Rightarrow> ((d, out @ bs), None)))"

text \<open>\<^verbatim>\<open>BinStrDict.write_tags(file, dic, tags)\<close>.\<close>

fun write_strs :: "string list \<Rightarrow> writer \<Rightarrow> writer \<times> error option" where
  "write_strs [] w = (w, None)"
| "write_strs (s # ss) w = and_then (write_str s w) (write_strs ss)"

definition write_tags :: "frozenset \<Rightarrow> writer \<Rightarrow> writer \<times> error option" where
  "write_tags tags w = and_then (write_8bit (length (remdups tags)) w) (write_strs (remdups tags))"

section \<open>Serialising the leaf records\<close>

text \<open>
  The number \<^verbatim>\<open>math.log2\<close> is applied to: an integer, or a boolean read as 0 or 1; any other
  value raises \<^verbatim>\<open>TypeError\<close>, and a number that is not positive raises \<^verbatim>\<open>ValueError\<close>.
\<close>

definition log2_power :: "pyval \<Rightarrow> error + nat" where
  "log2_power val =
     (case val of
        PyInt i \<Rightarrow> if i \<le> 0 then Inl MathDomainError else Inr (floor_log2 (nat i))
      | PyBool b \<Rightarrow> if b then Inr 0 else Inl MathDomainError
      | PyStr s \<Rightarrow> Inl TypeError
      | PyTags t \<Rightarrow> Inl TypeError)"

text \<open>
  The loop \<^verbatim>\<open>for val, name, default in self.val_list\<close> of \<^verbatim>\<open>KeyValues.serialise\<close>: a tuple
  that does not have exactly three elements cannot be unpacked and raises \<^verbatim>\<open>ValueError\<close>.
\<close>

fun write_flags :: "pyval list list \<Rightarrow> writer \<Rightarrow> writer \<times> error option" where
  "write_flags [] w = (w, None)"
| "write_flags (entry # entries) w =
     (case entry of
        [val, name, dflt] \<Rightarrow>
          (case log2_power val of
             Inl e \<Rightarrow> (w, Some e)
           | Inr pw \<Rightarrow>
               and_then
                 (write_8bit (if py_truthy dflt then or pw 128 else pw) w)
                 (\<lambda>w1. case name of
                         PyStr s \<Rightarrow> and_then (write_str s w1) (write_flags entries)
                       | _ \<Rightarrow> (w1, Some TypeError)))
      | _ \<Rightarrow> (w, Some UnpackError))"

text \<open>The loop \<^verbatim>\<open>for val, name in self.val_list\<close> for a \<^verbatim>\<open>choices\<close> keyvalue.\<close>

fun write_choices :: "pyval list list \<Rightarrow> writer \<Rightarrow> writer \<times> error option" where
  "write_choices [] w = (w, None)"
| "write_choices (entry # entries) w =
     (case entry of
        [PyStr val, PyStr name] \<Rightarrow>
          and_then (write_str val w)
            (\<lambda>w1. and_then (write_str name w1) (write_choices entries))
      | [val, name] \<Rightarrow> (w, Some TypeError)
      | _ \<Rightarrow> (w, Some UnpackError))"

text \<open>\<^verbatim>\<open>KeyValues.serialise(file, str_dict)\<close>.\<close>

definition KeyValues_serialise :: "KeyValues \<Rightarrow> writer \<Rightarrow> writer \<times> error option" where
  "KeyValues_serialise kv w =
     and_then (write_str (kv_name kv) w) (\<lambda>w1.
     and_then (write_str (kv_disp_name kv) w1) (\<lambda>w2.
       case VALUE_TYPE_INDEX (kv_type kv) of
         None \<Rightarrow> (w2, Some KeyError)
       | Some value_type \<Rightarrow>
           and_then
             (write_8bit (if py_truthy (kv_readonly kv) then or value_type 128 else value_type) w2)
             (\<lambda>w3.
                if kv_type kv = VT_SPAWNFLAGS then
                  (case kv_val_list kv of
                     None \<Rightarrow> (w3, Some TypeError)
                   | Some vl \<Rightarrow> and_then (write_8bit (length vl) w3) (write_flags vl))
                else
                  and_then (write_str (kv_default kv) w3) (\<lambda>w4.
                    if kv_type kv = VT_CHOICES then
                      (case kv_val_list kv of
                         None \<Rightarrow> (w4, Some TypeError)
                       | Some vl \<Rightarrow> and_then (write_16bit (length vl) w4) (write_choices vl))
                    else (w4, None)))))"

text \<open>\<^verbatim>\<open>IODef.serialise(file, dic)\<close>.\<close>

definition IODef_serialise :: "IODef \<Rightarrow> writer \<Rightarrow> writer \<times> error option" where
  "IODef_serialise io w =
     and_then (write_str (iodef_name io) w) (\<lambda>w1.
       case VALUE_TYPE_INDEX (iodef_type io) of
         None \<Rightarrow> (w1, Some KeyError)
       | Some value_type \<Rightarrow> write_8bit value_type w1)"


text \<open>A property of every keyvalue record of an entity.\<close>

definition all_keyvalues :: "(KeyValues \<Rightarrow> bool) \<Rightarrow> 'r EntityDef \<Rightarrow> bool" where
  "all_keyvalues P e =
     list_all (\<lambda>item. list_all (\<lambda>tagged. P (snd tagged)) (snd item)) (keyvalues e)"

text \<open>
  The token streams of two entity bodies: the spawnflags keyvalue of the specification's
  example, and a keyvalue line with the \<open>readonly\<close> marker (after the \<open>=\<close> of the header).
\<close>

definition flags_tokens :: tokens where
  "flags_tokens =
     [(STRING, ''MyEnt''), (BRACK_OPEN, []), (NEWLINE, []),
      (STRING, ''spawnflags''), (PAREN_ARGS, ''flags''), (EQUALS, []), (NEWLINE, []),
      (BRACK_OPEN, []), (NEWLINE, []),
      (STRING, ''1''), (COLON, []), (STRING, ''One''), (COLON, []), (STRING, ''1''), (NEWLINE, []),
      (STRING, ''2''), (COLON, []), (STRING, ''Two''), (COLON, []), (STRING, ''0''), (NEWLINE, []),
      (BRACK_CLOSE, []), (NEWLINE, []),
      (BRACK_CLOSE, []), (NEWLINE, [])]"

definition readonly_tokens :: tokens where
  "readonly_tokens =
     [(EQUALS, []), (STRING, ''MyEnt''), (BRACK_OPEN, []), (NEWLINE, []),
      (STRING, ''speed''), (PAREN_ARGS, ''integer''), (STRING, ''readonly''), (COLON, []),
      (STRING, ''Speed''), (COLON, []), (STRING, ''5''), (NEWLINE, []),
      (BRACK_CLOSE, []), (NEWLINE, [])]"

definition readonly_parsed :: "(FGD \<times> heap) \<times> (error + tokens)" where
  "readonly_parsed =
     EntityDef_parse FGD_new (\<lambda>r. EntityDef_new ET_BASE) 0 readonly_tokens ET_POINT True"

section \<open>Serialising entities and the database\<close>

text \<open>
  \<^verbatim>\<open>_fmt_ent_header.pack\<close> (\<^verbatim>\<open>'<BBBBB'\<close>) and \<^verbatim>\<open>Struct('>I').pack\<close>.
\<close>

definition pack_ent_header :: "nat \<Rightarrow> nat \<Rightarrow> nat \<Rightarrow> nat \<Rightarrow> nat \<Rightarrow> error + byte list" where
  "pack_ent_header a b c d e =
     (if a < 256 \<and> b < 256 \<and> c < 256 \<and> d < 256 \<and> e < 256
      then Inr [word_of_nat a, word_of_nat b, word_of_nat c, word_of_nat d, word_of_nat e]
      else Inl StructError)"

definition four_bytes :: "nat \<Rightarrow> byte list" where
  "four_bytes n =
     [word_of_nat (n div 16777216), word_of_nat (n div 65536 mod 256),
      word_of_nat (n div 256 mod 256), word_of_nat (n mod 256)]"

definition pack_32bit :: "nat \<Rightarrow> error + byte list" where
  "pack_32bit n = (if n < 4294967296 then Inr (four_bytes n) else Inl StructError)"

text \<open>
  \<^verbatim>\<open>txt.encode('utf8')\<close> for the characters a \<^typ>\<open>string\<close> holds (code points below 256):
  one byte below 128, two bytes from there on.
\<close>

definition utf8_char :: "char \<Rightarrow> byte list" where
  "utf8_char c =
     (let n = (of_char c :: nat) in
      if n < 128 then [word_of_nat n]
      else [word_of_nat (192 + n div 64), word_of_nat (128 + n mod 64)])"

definition utf8_encode :: "string \<Rightarrow> byte list" where
  "utf8_encode s = concat (map utf8_char s)"

text \<open>
  The loops of \<^verbatim>\<open>EntityDef.serialise\<close>. A tag map with one entry under the empty tag set is
  written as a zero count and the record; an empty tag map is skipped, though the header
  counted it.
\<close>

fun write_tagged ::
    "('v \<Rightarrow> writer \<Rightarrow> writer \<times> error option) \<Rightarrow> 'v tagmap \<Rightarrow> writer \<Rightarrow> writer \<times> error option" where
  "write_tagged ser [] w = (w, None)"
| "write_tagged ser ((tags, v) # items) w =
     and_then (write_tags tags w) (\<lambda>w1. and_then (ser v w1) (write_tagged ser items))"

definition write_tag_map ::
    "('v \<Rightarrow> writer \<Rightarrow> writer \<times> error option) \<Rightarrow> 'v tagmap \<Rightarrow> writer \<Rightarrow> writer \<times> error option" where
  "write_tag_map ser tag_map w =
     (if tag_map = [] then (w, None)
      else if length tag_map = 1 \<and> fst (hd tag_map) = [] then
        and_then (write_8bit 0 w) (ser (snd (hd tag_map)))
      else and_then (write_8bit (length tag_map) w) (write_tagged ser tag_map))"

fun write_attr_map ::
    "('v \<Rightarrow> writer \<Rightarrow> writer \<times> error option) \<Rightarrow> (string \<times> 'v tagmap) list \<Rightarrow> writer
     \<Rightarrow> writer \<times> error option" where
  "write_attr_map ser [] w = (w, None)"
| "write_attr_map ser ((name, tag_map) # items) w =
     and_then (write_tag_map ser tag_map w) (write_attr_map ser items)"

text \<open>A base that is still a name has no \<^verbatim>\<open>classname\<close> attribute.\<close>

fun write_base_names :: "heap \<Rightarrow> ref base list \<Rightarrow> writer \<Rightarrow> writer \<times> error option" where
  "write_base_names h [] w = (w, None)"
| "write_base_names h (b # bs) w =
     (case b of
        BaseStr s \<Rightarrow> (w, Some AttributeError)
      | BaseEnt r \<Rightarrow> and_then (write_str (classname (h r)) w) (write_base_names h bs))"

text \<open>\<^verbatim>\<open>EntityDef.serialise(file, str_dict)\<close>.\<close>

definition EntityDef_serialise :: "heap \<Rightarrow> ref EntityDef \<Rightarrow> writer \<Rightarrow> writer \<times> error option" where
  "EntityDef_serialise h e w =
     (case ENTITY_TYPE_INDEX (ent_type e) of
        None \<Rightarrow> (w, Some KeyError)
      | Some type_ind \<Rightarrow>
          (case pack_ent_header type_ind (length (bases e)) (length (keyvalues e))
                  (length (inputs e)) (length (outputs e)) of
             Inl err \<Rightarrow> (w, Some err)
           | Inr bs \<Rightarrow>
               and_then (write_str (classname e) (fst w, snd w @ bs)) (\<lambda>w1.
               and_then (write_base_names h (bases e) w1) (\<lambda>w2.
               and_then (write_attr_map KeyValues_serialise (keyvalues e) w2) (\<lambda>w3.
               and_then (write_attr_map IODef_serialise (inputs e) w3)
                 (write_attr_map IODef_serialise (outputs e)))))))"

fun write_entities :: "heap \<Rightarrow> ref list \<Rightarrow> writer \<Rightarrow> writer \<times> error option" where
  "write_entities h [] w = (w, None)"
| "write_entities h (r # rs) w = and_then (EntityDef_serialise h (h r) w) (write_entities h rs)"

text \<open>
  \<^verbatim>\<open>BinStrDict.serialise(file)\<close>: the list of the strings by index, then its length and each
  string with its length in characters. Storing at an index past the list raises
  \<^verbatim>\<open>IndexError\<close>.
\<close>

fun fill_inv_list :: "(string \<times> nat) list \<Rightarrow> string list \<Rightarrow> error + string list" where
  "fill_inv_list [] inv_list = Inr inv_list"
| "fill_inv_list ((txt, ind) # items) inv_list =
     (if ind < length inv_list then fill_inv_list items (inv_list[ind := txt])
      else Inl IndexError)"

fun encode_strings :: "string list \<Rightarrow> error + byte list" where
  "encode_strings [] = Inr []"
| "encode_strings (txt # txts) =
     (case pack_16bit (length txt) of
        Inl e \<Rightarrow> Inl e
      | Inr bs \<Rightarrow>
          (case encode_strings txts of
             Inl e \<Rightarrow> Inl e
           | Inr rest \<Rightarrow> Inr (bs @ utf8_encode txt @ rest)))"

definition BinStrDict_serialise :: "BinStrDict \<Rightarrow> error + byte list" where
  "BinStrDict_serialise d =
     (case fill_inv_list (bin_items d) (replicate (length (bin_items d)) []) of
        Inl e \<Rightarrow> Inl e
      | Inr inv_list \<Rightarrow>
          (case pack_32bit (length inv_list) of
             Inl e \<Rightarrow> Inl e
           | Inr bs \<Rightarrow>
               (case encode_strings inv_list of
                  Inl e \<Rightarrow> Inl e
                | Inr rest \<Rightarrow> Inr (bs @ rest))))"

text \<open>
  \<^verbatim>\<open>FGD._fix_missing_bases(ent)\<close>. \<^verbatim>\<open>poss_name not in self\<close> iterates the entities of the
  database and compares them with a string, so it holds for the first number tried, and
  the base is renamed to \<open>name_1\<close> and stored under that key. The recursion is given fuel
  for its depth.
\<close>

fun fix_missing_bases :: "nat \<Rightarrow> ref base list \<Rightarrow> FGD \<times> heap \<Rightarrow> (FGD \<times> heap) \<times> outcome" where
  "fix_missing_bases fuel [] st = (st, Returned)"
| "fix_missing_bases fuel (b # bs) (fgd, h) =
     (case b of
        BaseStr s \<Rightarrow> ((fgd, h), Raised AttributeError)
      | BaseEnt base \<Rightarrow>
          (case FGD_getitem fgd (classname (h base)) of
             Inl e \<Rightarrow> ((fgd, h), Raised e)
           | Inr r \<Rightarrow>
               if r = base then fix_missing_bases fuel bs (fgd, h)
               else
                 (let poss_name = casefold (rstrip ''_0123456789'' (classname (h base))) @ ''_'' @ ''1'';
                      h1 = h(base := set_classname poss_name (h base));
                      fgd1 = fgd\<lparr>entities := dict_update (entities fgd) poss_name base\<rparr>
                  in case fuel of
                       0 \<Rightarrow> ((fgd1, h1), OutOfFuel)
                     | Suc n \<Rightarrow>
                         (case fix_missing_bases n (bases (h1 base)) (fgd1, h1) of
                            (st, Returned) \<Rightarrow> fix_missing_bases fuel bs st
                          | (st, res) \<Rightarrow> (st, res)))))"

fun fix_all_bases :: "nat \<Rightarrow> ref list \<Rightarrow> FGD \<times> heap \<Rightarrow> (FGD \<times> heap) \<times> outcome" where
  "fix_all_bases fuel [] st = (st, Returned)"
| "fix_all_bases fuel (ent # ents) st =
     (case fix_missing_bases fuel (bases (snd st ent)) st of
        (st1, Returned) \<Rightarrow> fix_all_bases fuel ents st1
      | (st1, res) \<Rightarrow> (st1, res))"

text \<open>
  \<^verbatim>\<open>FGD.serialise(file)\<close>. The two map sizes are written as IEEE doubles; floating point is
  not modelled, and \<open>pack_double\<close> stands for \<^verbatim>\<open>Struct('>d').pack\<close>. The result is the
  database and heap after the renaming, and the outcome with the bytes of the file.
\<close>

datatype 'a result = Value 'a | Failed error | NoFuel

definition BIN_FORMAT_VERSION :: nat where
  "BIN_FORMAT_VERSION = 2"

definition magic :: "byte list" where
  "magic = map (\<lambda>c. word_of_nat (of_char c)) ''FGD''"

definition FGD_serialise ::
    "nat \<Rightarrow> (int \<Rightarrow> byte list) \<Rightarrow> FGD \<Rightarrow> heap \<Rightarrow> (FGD \<times> heap) \<times> byte list result" where
  "FGD_serialise fuel pack_double fgd h =
     (case fix_all_bases fuel (FGD_iter fgd) (fgd, h) of
        (st, OutOfFuel) \<Rightarrow> (st, NoFuel)
      | (st, Raised e) \<Rightarrow> (st, Failed e)
      | ((fgd1, h1), Returned) \<Rightarrow>
          ((fgd1, h1),
           (case pack_8bit BIN_FORMAT_VERSION of
              Inl e \<Rightarrow> Failed e
            | Inr version \<Rightarrow>
                (case pack_32bit (length (entities fgd1)) of
                   Inl e \<Rightarrow> Failed e
                 | Inr count \<Rightarrow>
                     (case write_entities h1 (FGD_iter fgd1) (BinStrDict_init, []) of
                        (w, Some e) \<Rightarrow> Failed e
                      | ((dictionary, ent_data), None) \<Rightarrow>
                          (case BinStrDict_serialise dictionary of
                             Inl e \<Rightarrow> Failed e
                           | Inr dict_data \<Rightarrow>
                               Value (magic @ version @ pack_double (map_size_min fgd1) @
                                      pack_double (map_size_max fgd1) @ count @
                                      dict_data @ ent_data)))))))"

section \<open>Reading the binary format\<close>

text \<open>
  A file being read is the list of the bytes not yet read. \<^verbatim>\<open>Struct.unpack\<close> raises
  \<^verbatim>\<open>struct.error\<close> when fewer bytes are left than the format needs.
\<close>

fun unpack_8bit :: "byte list \<Rightarrow> error + (nat \<times> byte list)" where
  "unpack_8bit (b # rest) = Inr (unat b, rest)"
| "unpack_8bit _ = Inl StructError"

fun unpack_16bit :: "byte list \<Rightarrow> error + (nat \<times> byte list)" where
  "unpack_16bit (b1 # b2 # rest) = Inr (unat b1 * 256 + unat b2, rest)"
| "unpack_16bit _ = Inl StructError"

fun unpack_32bit :: "byte list \<Rightarrow> error + (nat \<times> byte list)" where
  "unpack_32bit (b1 # b2 # b3 # b4 # rest) =
     Inr (unat b1 * 16777216 + unat b2 * 65536 + unat b3 * 256 + unat b4, rest)"
| "unpack_32bit _ = Inl StructError"

text \<open>
  \<^verbatim>\<open>bytes.decode('utf8')\<close> for the byte sequences of characters below code point 256; any
  other sequence is invalid UTF-8 or a character that a \<^typ>\<open>string\<close> does not hold, and
  is \<open>UnicodeError\<close> here.
\<close>

fun utf8_decode :: "byte list \<Rightarrow> error + string" where
  "utf8_decode [] = Inr []"
| "utf8_decode (b # bs) =
     (if unat b < 128 then map_sum id (\<lambda>s. char_of (unat b) # s) (utf8_decode bs)
      else if unat b = 194 \<or> unat b = 195 then
        (case bs of
           [] \<Rightarrow> Inl UnicodeError
         | c # cs \<Rightarrow>
             if 128 \<le> unat c \<and> unat c < 192
             then map_sum id (\<lambda>s. char_of ((unat b - 192) * 64 + (unat c - 128)) # s) (utf8_decode cs)
             else Inl UnicodeError)
      else Inl UnicodeError)"

text \<open>
  \<^verbatim>\<open>BinStrDict.unserialise(file)\<close>: the list of strings, from which the returned function
  \<open>lookup\<close> reads; \<open>from_dict\<close> is that function, given the list.
\<close>

fun read_strings :: "nat \<Rightarrow> byte list \<Rightarrow> error + (string list \<times> byte list)" where
  "read_strings 0 bs = Inr ([], bs)"
| "read_strings (Suc n) bs =
     (case unpack_16bit bs of
        Inl e \<Rightarrow> Inl e
      | Inr (str_len, rest) \<Rightarrow>
          (case utf8_decode (take str_len rest) of
             Inl e \<Rightarrow> Inl e
           | Inr txt \<Rightarrow>
               (case read_strings n (drop str_len rest) of
                  Inl e \<Rightarrow> Inl e
                | Inr (txts, rest1) \<Rightarrow> Inr (txt # txts, rest1))))"

definition BinStrDict_unserialise :: "byte list \<Rightarrow> error + (string list \<times> byte list)" where
  "BinStrDict_unserialise bs =
     (case unpack_32bit bs of
        Inl e \<Rightarrow> Inl e
      | Inr (len, rest) \<Rightarrow> read_strings len rest)"

definition from_dict :: "string list \<Rightarrow> byte list \<Rightarrow> error + (string \<times> byte list)" where
  "from_dict inv_list bs =
     (case unpack_16bit bs of
        Inl e \<Rightarrow> Inl e
      | Inr (index, rest) \<Rightarrow>
          if index < length inv_list then Inr (inv_list ! index, rest) else Inl IndexError)"

fun read_from_dict :: "string list \<Rightarrow> nat \<Rightarrow> byte list \<Rightarrow> error + (string list \<times> byte list)" where
  "read_from_dict inv_list 0 bs = Inr ([], bs)"
| "read_from_dict inv_list (Suc n) bs =
     (case from_dict inv_list bs of
        Inl e \<Rightarrow> Inl e
      | Inr (s, rest) \<Rightarrow>
          (case read_from_dict inv_list n rest of
             Inl e \<Rightarrow> Inl e
           | Inr (ss, rest1) \<Rightarrow> Inr (s # ss, rest1)))"

text \<open>\<^verbatim>\<open>BinStrDict.read_tags(file, from_dict)\<close>.\<close>

definition BinStrDict_read_tags :: "string list \<Rightarrow> byte list \<Rightarrow> error + (frozenset \<times> byte list)" where
  "BinStrDict_read_tags inv_list bs =
     (case unpack_8bit bs of
        Inl e \<Rightarrow> Inl e
      | Inr (sz, rest) \<Rightarrow>
          (case read_from_dict inv_list sz rest of
             Inl e \<Rightarrow> Inl e
           | Inr (tags, rest1) \<Rightarrow> Inr (remdups tags, rest1)))"

text \<open>
  \<^verbatim>\<open>KeyValues.unserialise(file, from_dict)\<close>. \<open>readonly\<close> is the integer
  \<^verbatim>\<open>value_ind & 128\<close>; the entries of a value list are three-element tuples for
  \<^verbatim>\<open>spawnflags\<close> and pairs for \<^verbatim>\<open>choices\<close>.
\<close>

fun read_flags :: "string list \<Rightarrow> nat \<Rightarrow> byte list \<Rightarrow> error + (pyval list list \<times> byte list)" where
  "read_flags inv_list 0 bs = Inr ([], bs)"
| "read_flags inv_list (Suc n) bs =
     (case unpack_8bit bs of
        Inl e \<Rightarrow> Inl e
      | Inr (pw, rest) \<Rightarrow>
          (case from_dict inv_list rest of
             Inl e \<Rightarrow> Inl e
           | Inr (val_name, rest1) \<Rightarrow>
               (case read_flags inv_list n rest1 of
                  Inl e \<Rightarrow> Inl e
                | Inr (vl, rest2) \<Rightarrow>
                    Inr ([PyInt (2 ^ (pw mod 128)), PyStr val_name, PyBool (128 \<le> pw)] # vl, rest2))))"

fun read_choices :: "string list \<Rightarrow> nat \<Rightarrow> byte list \<Rightarrow> error + (pyval list list \<times> byte list)" where
  "read_choices inv_list 0 bs = Inr ([], bs)"
| "read_choices inv_list (Suc n) bs =
     (case from_dict inv_list bs of
        Inl e \<Rightarrow> Inl e
      | Inr (v, rest) \<Rightarrow>
          (case from_dict inv_list rest of
             Inl e \<Rightarrow> Inl e
           | Inr (name, rest1) \<Rightarrow>
               (case read_choices inv_list n rest1 of
                  Inl e \<Rightarrow> Inl e
                | Inr (vl, rest2) \<Rightarrow> Inr ([PyStr v, PyStr name] # vl, rest2))))"

definition KeyValues_unserialise :: "string list \<Rightarrow> byte list \<Rightarrow> error + (KeyValues \<times> byte list)" where
  "KeyValues_unserialise inv_list bs =
     (case from_dict inv_list bs of
        Inl e \<Rightarrow> Inl e
      | Inr (name, rest) \<Rightarrow>
          (case from_dict inv_list rest of
             Inl e \<Rightarrow> Inl e
           | Inr (disp_name, rest1) \<Rightarrow>
               (case unpack_8bit rest1 of
                  Inl e \<Rightarrow> Inl e
                | Inr (value_ind, rest2) \<Rightarrow>
                    (let readonly = PyInt (if 128 \<le> value_ind then 128 else 0) in
                     if \<not> value_ind mod 128 < length VALUE_TYPE_ORDER then Inl IndexError
                     else
                       (let value_type = VALUE_TYPE_ORDER ! (value_ind mod 128) in
                        if value_type = VT_SPAWNFLAGS then
                          (case unpack_8bit rest2 of
                             Inl e \<Rightarrow> Inl e
                           | Inr (val_count, rest3) \<Rightarrow>
                               (case read_flags inv_list val_count rest3 of
                                  Inl e \<Rightarrow> Inl e
                                | Inr (val_list, rest4) \<Rightarrow>
                                    Inr (KeyValues_new name value_type disp_name [] []
                                           (Some val_list) readonly, rest4)))
                        else
                          (case from_dict inv_list rest2 of
                             Inl e \<Rightarrow> Inl e
                           | Inr (dflt, rest3) \<Rightarrow>
                               if value_type = VT_CHOICES then
                                 (case unpack_16bit rest3 of
                                    Inl e \<Rightarrow> Inl e
                                  | Inr (val_count, rest4) \<Rightarrow>
                                      (case read_choices inv_list val_count rest4 of
                                         Inl e \<Rightarrow> Inl e
                                       | Inr (val_list, rest5) \<Rightarrow>
                                           Inr (KeyValues_new name value_type disp_name dflt []
                                                  (Some val_list) readonly, rest5)))
                               else
                                 Inr (KeyValues_new name value_type disp_name dflt [] None
                                        readonly, rest3)))))))"

text \<open>\<^verbatim>\<open>IODef.unserialise(file, from_dict)\<close>.\<close>

definition IODef_unserialise :: "string list \<Rightarrow> byte list \<Rightarrow> error + (IODef \<times> byte list)" where
  "IODef_unserialise inv_list bs =
     (case from_dict inv_list bs of
        Inl e \<Rightarrow> Inl e
      | Inr (name, rest) \<Rightarrow>
          (case unpack_8bit rest of
             Inl e \<Rightarrow> Inl e
           | Inr (ind, rest1) \<Rightarrow>
               if ind < length VALUE_TYPE_ORDER
               then Inr (IODef_new name (VALUE_TYPE_ORDER ! ind) [], rest1)
               else Inl IndexError))"

text \<open>
  The loops of \<^verbatim>\<open>EntityDef.unserialise\<close>. \<open>unser\<close> is the \<^verbatim>\<open>unserialise\<close> of the record
  class and \<open>name_of\<close> its \<^verbatim>\<open>name\<close> attribute: the tag map is stored under the name of the
  first record read.
\<close>

fun read_tagged ::
    "(byte list \<Rightarrow> error + ('v \<times> byte list)) \<Rightarrow> string list \<Rightarrow> nat \<Rightarrow> 'v tagmap \<Rightarrow> byte list
     \<Rightarrow> error + ('v tagmap \<times> byte list)" where
  "read_tagged unser inv_list 0 tag_map bs = Inr (tag_map, bs)"
| "read_tagged unser inv_list (Suc n) tag_map bs =
     (case BinStrDict_read_tags inv_list bs of
        Inl e \<Rightarrow> Inl e
      | Inr (tag, rest) \<Rightarrow>
          (case unser rest of
             Inl e \<Rightarrow> Inl e
           | Inr (obj, rest1) \<Rightarrow> read_tagged unser inv_list n (fs_update tag_map tag obj) rest1))"

fun read_attr_map ::
    "(byte list \<Rightarrow> error + ('v \<times> byte list)) \<Rightarrow> ('v \<Rightarrow> string) \<Rightarrow> string list \<Rightarrow> nat
     \<Rightarrow> (string \<times> 'v tagmap) list \<Rightarrow> byte list \<Rightarrow> error + ((string \<times> 'v tagmap) list \<times> byte list)" where
  "read_attr_map unser name_of inv_list 0 val_map bs = Inr (val_map, bs)"
| "read_attr_map unser name_of inv_list (Suc n) val_map bs =
     (case unpack_8bit bs of
        Inl e \<Rightarrow> Inl e
      | Inr (tag_count, rest) \<Rightarrow>
          if tag_count = 0 then
            (case unser rest of
               Inl e \<Rightarrow> Inl e
             | Inr (obj, rest1) \<Rightarrow>
                 read_attr_map unser name_of inv_list n
                   (dict_update val_map (name_of obj) [([], obj)]) rest1)
          else
            (case BinStrDict_read_tags inv_list rest of
               Inl e \<Rightarrow> Inl e
             | Inr (tag, rest1) \<Rightarrow>
                 (case unser rest1 of
                    Inl e \<Rightarrow> Inl e
                  | Inr (obj, rest2) \<Rightarrow>
                      (case read_tagged unser inv_list (tag_count - 1) [(tag, obj)] rest2 of
                         Inl e \<Rightarrow> Inl e
                       | Inr (tag_map, rest3) \<Rightarrow>
                           read_attr_map unser name_of inv_list n
                             (dict_update val_map (name_of obj) tag_map) rest3))))"

text \<open>\<^verbatim>\<open>EntityDef.unserialise(file, from_dict)\<close>; the bases are stored as names.\<close>

fun unpack_ent_header :: "byte list \<Rightarrow> error + ((nat \<times> nat \<times> nat \<times> nat \<times> nat) \<times> byte list)" where
  "unpack_ent_header (a # b # c # d # e # rest) = Inr ((unat a, unat b, unat c, unat d, unat e), rest)"
| "unpack_ent_header _ = Inl StructError"

definition EntityDef_unserialise :: "string list \<Rightarrow> byte list \<Rightarrow> error + (ref EntityDef \<times> byte list)" where
  "EntityDef_unserialise inv_list bs =
     (case unpack_ent_header bs of
        Inl e \<Rightarrow> Inl e
      | Inr ((type_ind, base_count, kv_count, inp_count, out_count), rest) \<Rightarrow>
          if \<not> type_ind < length ENTITY_TYPE_ORDER then Inl IndexError
          else
            (case from_dict inv_list rest of
               Inl e \<Rightarrow> Inl e
             | Inr (cn, rest1) \<Rightarrow>
                 (case read_from_dict inv_list base_count rest1 of
                    Inl e \<Rightarrow> Inl e
                  | Inr (base_names, rest2) \<Rightarrow>
                      (case read_attr_map (KeyValues_unserialise inv_list) kv_name inv_list kv_count [] rest2 of
                         Inl e \<Rightarrow> Inl e
                       | Inr (kvs, rest3) \<Rightarrow>
                           (case read_attr_map (IODef_unserialise inv_list) iodef_name inv_list inp_count [] rest3 of
                              Inl e \<Rightarrow> Inl e
                            | Inr (inps, rest4) \<Rightarrow>
                                (case read_attr_map (IODef_unserialise inv_list) iodef_name inv_list out_count [] rest4 of
                                   Inl e \<Rightarrow> Inl e
                                 | Inr (outs, rest5) \<Rightarrow>
                                     Inr (EntityDef (ENTITY_TYPE_ORDER ! type_ind) cn kvs inps outs []
                                            (map BaseStr base_names) [] [], rest5)))))))"

text \<open>
  \<^verbatim>\<open>FGD.unserialise(file)\<close>. The entities read are new objects: the \<open>n\<close>-th one is put at
  address \<open>n\<close> of a new heap. \<open>unpack_double\<close> stands for \<^verbatim>\<open>Struct('>d').unpack\<close>.
\<close>

fun read_entities ::
    "string list \<Rightarrow> nat \<Rightarrow> ref \<Rightarrow> FGD \<times> heap \<Rightarrow> byte list \<Rightarrow> error + (FGD \<times> heap)" where
  "read_entities inv_list 0 next_ref st bs = Inr st"
| "read_entities inv_list (Suc n) next_ref (fgd, h) bs =
     (case EntityDef_unserialise inv_list bs of
        Inl e \<Rightarrow> Inl e
      | Inr (ent, rest) \<Rightarrow>
          read_entities inv_list n (Suc next_ref)
            (fgd\<lparr>entities := dict_update (entities fgd) (casefold (classname ent)) next_ref\<rparr>,
             h(next_ref := ent))
            rest)"

definition FGD_unserialise :: "(byte list \<Rightarrow> int) \<Rightarrow> byte list \<Rightarrow> error + (FGD \<times> heap)" where
  "FGD_unserialise unpack_double bs =
     (if take 3 bs \<noteq> magic then Inl ValueError
      else
        (case unpack_8bit (drop 3 bs) of
           Inl e \<Rightarrow> Inl e
         | Inr (format_version, rest) \<Rightarrow>
             if length rest < 16 then Inl StructError
             else
               (case unpack_32bit (drop 16 rest) of
                  Inl e \<Rightarrow> Inl e
                | Inr (ent_count, rest1) \<Rightarrow>
                    if format_version \<noteq> BIN_FORMAT_VERSION then Inl TypeError
                    else
                      (case BinStrDict_unserialise rest1 of
                         Inl e \<Rightarrow> Inl e
                       | Inr (inv_list, rest2) \<Rightarrow>
                           (case read_entities inv_list ent_count 0
                                   (FGD_new\<lparr>map_size_min := unpack_double (take 8 rest),
                                            map_size_max := unpack_double (take 8 (drop 8 rest))\<rparr>,
                                    \<lambda>r. EntityDef_new ET_BASE)
                                   rest2 of
                              Inl e \<Rightarrow> Inl e
                            | Inr (fgd, h) \<Rightarrow>
                                (case apply_bases fgd h of
                                   (h1, Some e) \<Rightarrow> Inl e
                                 | (h1, None) \<Rightarrow> Inr (fgd, h1)))))))"

section \<open>What the binary format keeps\<close>

text \<open>
  The database that reading a written file is compared with. A keyvalue record keeps its
  name, type, display name and value list; its default unless it is a \<^verbatim>\<open>spawnflags\<close>
  keyvalue, whose default is not written; \<open>readonly\<close> as the integer 128 or 0. An
  input or output keeps its name and type. Descriptions are empty. A tag map is stored
  under the name of its first record. The \<open>n\<close>-th entity of the database is the object at
  address \<open>n\<close>, and a base is the object of the entity stored under its classname.
\<close>

definition stored_kv :: "KeyValues \<Rightarrow> KeyValues" where
  "stored_kv kv =
     KeyValues_new (kv_name kv) (kv_type kv) (kv_disp_name kv)
       (if kv_type kv = VT_SPAWNFLAGS then [] else kv_default kv) []
       (kv_val_list kv) (PyInt (if py_truthy (kv_readonly kv) then 128 else 0))"

definition stored_io :: "IODef \<Rightarrow> IODef" where
  "stored_io io = IODef_new (iodef_name io) (iodef_type io) []"

definition stored_attrs ::
    "('v \<Rightarrow> string) \<Rightarrow> ('v \<Rightarrow> 'v) \<Rightarrow> (string \<times> 'v tagmap) list \<Rightarrow> (string \<times> 'v tagmap) list" where
  "stored_attrs name_of f items =
     map (\<lambda>item. (name_of (snd (hd (snd item))), map (\<lambda>tagged. (fst tagged, f (snd tagged))) (snd item)))
       items"

definition base_name :: "heap \<Rightarrow> ref base \<Rightarrow> string" where
  "base_name h b = (case b of BaseStr s \<Rightarrow> s | BaseEnt r \<Rightarrow> classname (h r))"

definition stored_ent :: "heap \<Rightarrow> ref EntityDef \<Rightarrow> ref EntityDef" where
  "stored_ent h e =
     EntityDef (ent_type e) (classname e)
       (stored_attrs kv_name stored_kv (keyvalues e))
       (stored_attrs iodef_name stored_io (inputs e))
       (stored_attrs iodef_name stored_io (outputs e))
       [] (map (\<lambda>b. BaseStr (base_name h b)) (bases e)) [] []"

definition stored_base :: "FGD \<Rightarrow> ref base \<Rightarrow> ref base" where
  "stored_base fgd b =
     (case b of
        BaseStr s \<Rightarrow> BaseEnt (first_index (map fst (entities fgd)) (casefold s))
      | BaseEnt r \<Rightarrow> BaseEnt r)"

definition stored_fgd :: "(byte list \<Rightarrow> int) \<Rightarrow> (int \<Rightarrow> byte list) \<Rightarrow> FGD \<Rightarrow> FGD" where
  "stored_fgd unpack_double pack_double fgd =
     \<lparr>parse_list = [],
      entities = zip (map fst (entities fgd)) [0 ..< length (entities fgd)],
      map_size_min = unpack_double (pack_double (map_size_min fgd)),
      map_size_max = unpack_double (pack_double (map_size_max fgd))\<rparr>"

definition stored_heap :: "FGD \<Rightarrow> heap \<Rightarrow> heap" where
  "stored_heap fgd h =
     (\<lambda>n. if n < length (entities fgd)
          then (let e = stored_ent h (h (snd (entities fgd ! n)))
                in set_bases (map (stored_base fgd) (bases e)) e)
          else EntityDef_new ET_BASE)"

text \<open>
  The databases the format can hold. Strings are ASCII (the dictionary writes the length
  of a string in characters and reads that many bytes). A \<^verbatim>\<open>spawnflags\<close> value list has
  entries \<open>(2 ^ k, name, bool)\<close> with \<open>k < 128\<close>, a \<^verbatim>\<open>choices\<close> value list has pairs of
  strings, and no other keyvalue has a value list. No tag map is empty, tag sets are kept
  without duplicates, the tag sets of a tag map differ, and the first records of the tag maps of
  an attribute dictionary have different names. Every entity is stored under its case-folded
  classname, and every base is an entity object that the database holds under its classname.
\<close>

definition ascii :: "string \<Rightarrow> bool" where
  "ascii s = list_all (\<lambda>c. (of_char c :: nat) < 128) s"

definition is_flag_entry :: "pyval list \<Rightarrow> bool" where
  "is_flag_entry entry =
     (case entry of
        [PyInt v, PyStr name, PyBool dflt] \<Rightarrow>
          0 < v \<and> v = 2 ^ floor_log2 (nat v) \<and> floor_log2 (nat v) < 128 \<and> ascii name
      | _ \<Rightarrow> False)"

definition is_choice_entry :: "pyval list \<Rightarrow> bool" where
  "is_choice_entry entry =
     (case entry of
        [PyStr v, PyStr name] \<Rightarrow> ascii v \<and> ascii name
      | _ \<Rightarrow> False)"

definition wf_kv :: "KeyValues \<Rightarrow> bool" where
  "wf_kv kv =
     (ascii (kv_name kv) \<and> ascii (kv_disp_name kv) \<and>
      (if kv_type kv = VT_SPAWNFLAGS then
         (case kv_val_list kv of None \<Rightarrow> False | Some vl \<Rightarrow> list_all is_flag_entry vl)
       else
         ascii (kv_default kv) \<and>
         (if kv_type kv = VT_CHOICES then
            (case kv_val_list kv of None \<Rightarrow> False | Some vl \<Rightarrow> list_all is_choice_entry vl)
          else kv_val_list kv = None)))"

definition wf_io :: "IODef \<Rightarrow> bool" where
  "wf_io io = ascii (iodef_name io)"

definition wf_tagmap :: "('v \<Rightarrow> bool) \<Rightarrow> 'v tagmap \<Rightarrow> bool" where
  "wf_tagmap wf_v tag_map =
     (tag_map \<noteq> [] \<and> distinct (map (\<lambda>tagged. set (fst tagged)) tag_map) \<and>
      list_all (\<lambda>tagged. distinct (fst tagged) \<and> list_all ascii (fst tagged) \<and> wf_v (snd tagged))
        tag_map)"

definition wf_attrs :: "('v \<Rightarrow> string) \<Rightarrow> ('v \<Rightarrow> bool) \<Rightarrow> (string \<times> 'v tagmap) list \<Rightarrow> bool" where
  "wf_attrs name_of wf_v items =
     (distinct (map (\<lambda>item. name_of (snd (hd (snd item)))) items) \<and>
      list_all (\<lambda>item. wf_tagmap wf_v (snd item)) items)"

definition registered :: "FGD \<Rightarrow> heap \<Rightarrow> ref base \<Rightarrow> bool" where
  "registered fgd h b =
     (case b of
        BaseStr s \<Rightarrow> False
      | BaseEnt r \<Rightarrow> map_of (entities fgd) (casefold (classname (h r))) = Some r)"

definition wf_ent :: "FGD \<Rightarrow> heap \<Rightarrow> ref EntityDef \<Rightarrow> bool" where
  "wf_ent fgd h e =
     (ascii (classname e) \<and> list_all (registered fgd h) (bases e) \<and>
      wf_attrs kv_name wf_kv (keyvalues e) \<and>
      wf_attrs iodef_name wf_io (inputs e) \<and>
      wf_attrs iodef_name wf_io (outputs e))"

definition wf_db :: "FGD \<Rightarrow> heap \<Rightarrow> bool" where
  "wf_db fgd h =
     (distinct (map fst (entities fgd)) \<and>
      list_all (\<lambda>item. fst item = casefold (classname (h (snd item))) \<and> wf_ent fgd h (h (snd item)))
        (entities fgd))"

text \<open>
  A writer and a reader fit at a value: whatever the writer appends, from a dictionary
  holding \<open>seen\<close>, the reader reads back as the value and leaves the rest of the file,
  whatever else is registered in the dictionary later. The strings the writer registers
  satisfy \<open>P\<close>.
\<close>

definition encodes ::
    "(string \<Rightarrow> bool) \<Rightarrow> (writer \<Rightarrow> writer \<times> error option)
     \<Rightarrow> (string list \<Rightarrow> byte list \<Rightarrow> error + ('a \<times> byte list)) \<Rightarrow> 'a \<Rightarrow> bool" where
  "encodes P w r x \<longleftrightarrow>
     (\<forall>d out seen d' out'.
        bsd_inv d seen \<and> w (d, out) = ((d', out'), None) \<longrightarrow>
        (\<exists>seen' bs. bsd_inv d' (seen @ seen') \<and> list_all P seen' \<and> out' = out @ bs \<and>
           (\<forall>more rest. r (seen @ seen' @ more) (bs @ rest) = Inr (x, rest))))"

section \<open>Properties of the tag engine\<close>

lemmas str_eval = upper_def upper_char_def casefold_def casefold_char_def
  ascii_lowercase_def ascii_uppercase_def lstrip_def rstrip_def


lemma upper_char_cases:
  "upper_char c = c \<or> (c \<in> set ascii_lowercase \<and> upper_char c \<in> set ascii_uppercase)"
proof (cases "map_of (zip ascii_lowercase ascii_uppercase) c")
  case None
  then have "upper_char c = c" unfolding upper_char_def by simp
  then show ?thesis by blast
next
  case (Some u)
  then have "(c, u) \<in> set (zip ascii_lowercase ascii_uppercase)"
    by (rule map_of_SomeD)
  then have "c \<in> set ascii_lowercase" "u \<in> set ascii_uppercase"
    by (rule set_zip_leftD, rule set_zip_rightD)
  moreover have "upper_char c = u" unfolding upper_char_def using Some by simp
  ultimately show ?thesis by blast
qed

lemma sigil_not_letter:
  "c \<in> set ''!-+'' \<Longrightarrow> c \<notin> set ascii_lowercase \<and> c \<notin> set ascii_uppercase"
  by (auto simp: ascii_lowercase_def ascii_uppercase_def)

lemma upper_char_sigil:
  assumes "s \<in> set ''!-+''"
  shows "upper_char c = s \<longleftrightarrow> c = s"
  using upper_char_cases[of c] sigil_not_letter[OF assms] sigil_not_letter[of c] assms
  by metis

lemma upper_keeps_sigils: "keeps_sigils upper"
proof -
  have "upper (c # t) = c # upper t \<and> (take 1 (upper t) = [c] \<longrightarrow> take 1 t = [c])"
    if c: "c \<in> set ''!-+''" for c t
  proof -
    have "upper_char c = c" using upper_char_sigil[OF c, of c] by simp
    then have "upper (c # t) = c # upper t" by (simp add: upper_def)
    moreover have "take 1 (upper t) = [c] \<longrightarrow> take 1 t = [c]"
      by (cases t) (simp_all add: upper_def upper_char_sigil[OF c])
    ultimately show ?thesis by blast
  qed
  then show ?thesis unfolding keeps_sigils_def by blast
qed

lemma sigil_start:
  assumes "keeps_sigils up" "c \<in> set ''!-+''"
  shows "take 1 (up t) = [c] \<longleftrightarrow> take 1 t = [c]"
proof
  assume "take 1 (up t) = [c]"
  then show "take 1 t = [c]" using assms unfolding keeps_sigils_def by blast
next
  assume "take 1 t = [c]"
  then obtain r where t: "t = c # r" by (cases t) auto
  have "up (c # r) = c # up r" using assms unfolding keeps_sigils_def by blast
  then show "take 1 (up t) = [c]" using t by simp
qed

lemma sigil_drop:
  assumes "keeps_sigils up" "c \<in> set ''!-+''" "take 1 t = [c]"
  shows "drop 1 (up t) = up (drop 1 t)"
proof -
  obtain r where t: "t = c # r" using assms(3) by (cases t) auto
  have "up (c # r) = c # up r" using assms(1,2) unfolding keeps_sigils_def by blast
  then show ?thesis using t by simp
qed

lemma start_up:
  assumes "keeps_sigils up"
  shows "(take 1 (up t) = ''!'' \<or> take 1 (up t) = ''-'') = neg_sigil t"
    and "(take 1 (up t) = ''+'') = pos_sigil t"
  unfolding neg_sigil_def pos_sigil_def
  using sigil_start[OF assms, of "CHR ''!''" t] sigil_start[OF assms, of "CHR ''-''" t]
        sigil_start[OF assms, of "CHR ''+''" t]
  by simp_all

lemma drop_up:
  assumes "keeps_sigils up" "neg_sigil t \<or> pos_sigil t"
  shows "drop 1 (up t) = up (drop 1 t)"
  using assms(2) sigil_drop[OF assms(1), of "CHR ''!''" t] sigil_drop[OF assms(1), of "CHR ''-''" t]
        sigil_drop[OF assms(1), of "CHR ''+''" t]
  unfolding neg_sigil_def pos_sigil_def by auto

lemma match_loop_step:
  assumes "keeps_sigils up"
  shows "match_loop up Q ha m (t # ts) =
     (if neg_sigil t then up (drop 1 t) \<notin> Q \<and> match_loop up Q ha m ts
      else if pos_sigil t then up (drop 1 t) \<in> Q \<and> match_loop up Q ha m ts
      else match_loop up Q ha
             (if ha \<or> up t \<in> Q then Some True else if m = None then Some False else m) ts)"
proof -
  have step: "match_loop up Q ha m (t # ts) =
     (if neg_sigil t then drop 1 (up t) \<notin> Q \<and> match_loop up Q ha m ts
      else if pos_sigil t then drop 1 (up t) \<in> Q \<and> match_loop up Q ha m ts
      else match_loop up Q ha
             (if ha \<or> up t \<in> Q then Some True else if m = None then Some False else m) ts)"
    by (simp only: match_loop.simps Let_def start_up[OF assms]) simp
  show ?thesis
  proof (cases "neg_sigil t \<or> pos_sigil t")
    case True
    then show ?thesis unfolding step using drop_up[OF assms True] by simp
  next
    case False
    then show ?thesis unfolding step by simp
  qed
qed

lemma match_loop_char:
  assumes ks: "keeps_sigils up"
  shows "match_loop up Q ha m ts \<longleftrightarrow>
     \<not> (\<exists>t\<in>set ts. neg_sigil t \<and> up (drop 1 t) \<in> Q) \<and>
     \<not> (\<exists>t\<in>set ts. pos_sigil t \<and> up (drop 1 t) \<notin> Q) \<and>
     (m = Some True \<or> (m = None \<and> \<not> (\<exists>t\<in>set ts. plain_tag t)) \<or>
      (\<exists>t\<in>set ts. plain_tag t \<and> (ha \<or> up t \<in> Q)))"
proof (induction ts arbitrary: m)
  case Nil
  then show ?case by (cases m) auto
next
  case (Cons t ts)
  note step = match_loop_step[OF ks]
  have sig: "\<not> (neg_sigil t \<and> pos_sigil t)"
    by (auto simp: neg_sigil_def pos_sigil_def)
  consider (neg) "neg_sigil t" | (pos) "pos_sigil t" | (plain) "plain_tag t"
    unfolding plain_tag_def by blast
  then show ?case
  proof cases
    case neg
    then have "\<not> pos_sigil t" "\<not> plain_tag t" using sig by (auto simp: plain_tag_def)
    then show ?thesis using neg by (simp add: step Cons del: match_loop.simps) blast?
  next
    case pos
    then have "\<not> neg_sigil t" "\<not> plain_tag t" using sig by (auto simp: plain_tag_def)
    then show ?thesis using pos by (simp add: step Cons del: match_loop.simps) blast?
  next
    case plain
    then have n: "\<not> neg_sigil t" "\<not> pos_sigil t" by (auto simp: plain_tag_def)
    show ?thesis
    proof (cases "ha \<or> up t \<in> Q")
      case True
      then show ?thesis using n plain by (simp add: step Cons del: match_loop.simps) blast?
    next
      case False
      then show ?thesis using n plain Cons[of "Some False"] Cons[of m]
        by (cases m) (auto simp add: step simp del: match_loop.simps)
    qed
  qed
qed

text \<open>
  Claim C1. \<open>up\<close> is the upper-casing function, of which only \<open>keeps_sigils\<close> is assumed.
  An empty candidate collection always matches. A candidate with a \<open>!\<close> or \<open>-\<close>
  sigil whose stripped, upper-cased form is in the query, or a candidate with a \<open>+\<close> sigil
  whose stripped, upper-cased form is not in the query, makes the match fail. Otherwise the
  match succeeds exactly when there is no plain candidate, or some plain candidate's
  upper-cased form is in the query, or the query holds \<open><ALL>\<close>.
\<close>

theorem match_tags_semantics:
  assumes "keeps_sigils up"
  shows "match_tags up Q [] \<and>
   ((\<exists>t\<in>set T. neg_sigil t \<and> up (drop 1 t) \<in> Q) \<or>
    (\<exists>t\<in>set T. pos_sigil t \<and> up (drop 1 t) \<notin> Q) \<longrightarrow> \<not> match_tags up Q T) \<and>
   (\<not> (\<exists>t\<in>set T. neg_sigil t \<and> up (drop 1 t) \<in> Q) \<and>
    \<not> (\<exists>t\<in>set T. pos_sigil t \<and> up (drop 1 t) \<notin> Q) \<longrightarrow>
    (match_tags up Q T \<longleftrightarrow>
       \<not> (\<exists>t\<in>set T. plain_tag t) \<or> (\<exists>t\<in>set T. plain_tag t \<and> up t \<in> Q) \<or> ''<ALL>'' \<in> Q))"
proof (cases "T = []")
  case True
  then show ?thesis by (simp add: match_tags_def)
next
  case False
  have e: "match_tags up Q [] = True" by (simp add: match_tags_def)
  have "match_tags up Q T = match_loop up Q (''<ALL>'' \<in> Q) None T"
    using False by (simp add: match_tags_def)
  then show ?thesis unfolding e match_loop_char[OF assms] by blast
qed

theorem match_tags_semantics_witness:
  "keeps_sigils upper \<and>
   match_tags upper {''HL2''} [] \<and> \<not> match_tags upper {''HL2''} [''!hl2'', ''ep1''] \<and>
   \<not> match_tags upper {''HL2''} [''+ep2''] \<and> match_tags upper {''HL2''} [''hl2'', ''-ep1'', ''Ep2'']
   \<and> \<not> match_tags upper {''HL2''} [''ep1'', ''+hl2''] \<and> match_tags upper {''<ALL>''} [''ep1'', ''-hl2'']"
  using match_tags_semantics[OF upper_keeps_sigils, of "{''HL2''}" "[''!hl2'', ''ep1'']"]
        match_tags_semantics[OF upper_keeps_sigils, of "{''HL2''}" "[''+ep2'']"]
        match_tags_semantics[OF upper_keeps_sigils, of "{''HL2''}" "[''hl2'', ''-ep1'', ''Ep2'']"]
        match_tags_semantics[OF upper_keeps_sigils, of "{''HL2''}" "[''ep1'', ''+hl2'']"]
        match_tags_semantics[OF upper_keeps_sigils, of "{''<ALL>''}" "[''ep1'', ''-hl2'']"]
        upper_keeps_sigils
  by (simp add: neg_sigil_def pos_sigil_def plain_tag_def str_eval)

lemma upper_char_not_a: "upper_char c \<noteq> CHR ''a''"
proof
  assume a: "upper_char c = CHR ''a''"
  have na: "CHR ''a'' \<notin> set ascii_uppercase" by (simp add: ascii_uppercase_def)
  from upper_char_cases[of c] a na have "c = CHR ''a''" by metis
  moreover have "upper_char (CHR ''a'') = CHR ''A''" by (simp add: str_eval)
  ultimately show False using a by simp
qed

lemma upper_never_any: "never_any upper"
  unfolding never_any_def
proof (intro allI notI)
  fix s
  assume "upper s = ''<any>''"
  then have "CHR ''a'' \<in> set (upper s)" by simp
  then obtain c where "upper_char c = CHR ''a''" by (auto simp: upper_def)
  then show False using upper_char_not_a by blast
qed

lemma validate_tags_dup:
  "\<not> distinct (map (\<lambda>t. up (lstrip ''!-+'' t)) tags) \<Longrightarrow> validate_tags up tags = Inl DuplicateTags"
  using card_distinct[of "map (\<lambda>t. up (lstrip ''!-+'' t)) tags"]
  by (auto simp: validate_tags_def Let_def)

lemma validate_tags_ok:
  assumes "never_any up" "distinct (map (\<lambda>t. up (lstrip ''!-+'' t)) tags)"
  shows "validate_tags up tags = Inr (remdups (map up tags))"
proof -
  have c: "card (set (map (\<lambda>t. up (lstrip ''!-+'' t)) tags)) = length tags"
    using distinct_card[OF assms(2)] by simp
  have n: "''<any>'' \<notin> set (map (\<lambda>t. up (lstrip ''!-+'' t)) tags)"
    using assms(1) unfolding never_any_def by (metis (no_types, lifting) imageE list.set_map)
  show ?thesis unfolding validate_tags_def Let_def using c n by (simp only: if_False refl not_True_eq_False simp_thms)
qed

text \<open>
  Claim C6, as the code has it. \<open>up\<close> is the upper-casing function, of which only
  \<open>never_any\<close> is assumed. \<^verbatim>\<open>validate_tags\<close> raises the supplied error when two tags are
  equal after stripping leading sigils and upper-casing. Otherwise, for a collection that
  does not name the wildcard \<open><any>\<close> in any letter case (no stripped tag is upper-cased to
  \<open><ANY>\<close>), it returns the set of the upper-cased tags, each with its sigils kept.
\<close>

theorem validate_tags_keeps_sigils:
  assumes "never_any up"
  shows "(\<not> distinct (map (\<lambda>t. up (lstrip ''!-+'' t)) tags) \<longrightarrow>
      validate_tags up tags = Inl DuplicateTags) \<and>
   (distinct (map (\<lambda>t. up (lstrip ''!-+'' t)) tags) \<and>
    \<not> (\<exists>t\<in>set tags. up (lstrip ''!-+'' t) = ''<ANY>'') \<longrightarrow>
      validate_tags up tags = Inr (remdups (map up tags)))"
  using validate_tags_dup[of up tags] validate_tags_ok[OF assms, of tags] by blast

theorem validate_tags_keeps_sigils_witness:
  "never_any upper \<and>
   validate_tags upper [''hl2'', ''!HL2''] = Inl DuplicateTags \<and>
   validate_tags upper [''+hl2'', ''-Ep1'', ''p2''] = Inr [''+HL2'', ''-EP1'', ''P2'']"
  using validate_tags_keeps_sigils[OF upper_never_any, of "[''hl2'', ''!HL2'']"]
        validate_tags_keeps_sigils[OF upper_never_any, of "[''+hl2'', ''-Ep1'', ''p2'']"]
        upper_never_any
  by (simp add: str_eval)

text \<open>
  The returned set keeps the sigil of \<open>!hl2\<close>, so it is not the set of stripped labels; and
  \<open><any>\<close> is accepted, since it is looked for among upper-cased strings.
\<close>

theorem validate_tags_strip_counterexample:
  "validate_tags upper [''!hl2''] = Inr [''!HL2''] \<and>
   validate_tags upper [''!hl2''] \<noteq> Inr [upper (lstrip ''!-+'' ''!hl2'')] \<and>
   validate_tags upper [''<any>''] = Inr [''<ANY>'']"
  by (simp add: validate_tags_def str_eval)

section \<open>Properties of the string dictionary\<close>

lemma first_index_less: "x \<in> set xs \<Longrightarrow> first_index xs x < length xs"
  by (induction xs) auto

lemma first_index_append_in: "x \<in> set xs \<Longrightarrow> first_index (xs @ ys) x = first_index xs x"
  by (induction xs) auto

lemma first_index_append_new: "x \<notin> set xs \<Longrightarrow> first_index (xs @ [x]) x = length xs"
  by (induction xs) auto

lemma first_seen_set: "set (first_seen seen ss) = set seen \<union> set ss"
  by (induction ss arbitrary: seen) auto

lemma first_seen_distinct: "distinct seen \<Longrightarrow> distinct (first_seen seen ss)"
  by (induction ss arbitrary: seen) auto

lemma first_seen_index: "x \<in> set seen \<Longrightarrow> first_index (first_seen seen ss) x = first_index seen x"
  by (induction ss arbitrary: seen) (auto simp: first_index_append_in)

lemma map_of_zip_upt:
  "distinct xs \<Longrightarrow>
   map_of (zip xs [k ..< k + length xs]) s =
     (if s \<in> set xs then Some (k + first_index xs s) else None)"
proof (induction xs arbitrary: k)
  case Nil
  then show ?case by simp
next
  case (Cons x xs)
  have "[k ..< k + length (x # xs)] = k # [Suc k ..< Suc k + length xs]"
    using upt_conv_Cons[of k "k + length (x # xs)"] by simp
  then show ?case using Cons.IH[of "Suc k"] Cons.prems by auto
qed

lemma bsd_inv_lookup:
  "bsd_inv d seen \<Longrightarrow>
   bin_dict d s = (if s \<in> set seen then Some (first_index seen s) else None)"
  using map_of_zip_upt[of seen 0 s] by (simp add: bsd_inv_def bin_dict_def)

lemma call_known:
  assumes "bsd_inv d seen" "s \<in> set seen" "length seen \<le> 65536"
  shows "BinStrDict_call d s = (d, Inr (two_bytes (first_index seen s)))"
proof -
  have "bin_dict d s = Some (first_index seen s)" using assms by (simp add: bsd_inv_lookup)
  moreover have "first_index seen s < 65536" using first_index_less[OF assms(2)] assms(3) by simp
  ultimately show ?thesis by (simp add: BinStrDict_call_def pack_16bit_def)
qed

lemma call_new:
  assumes "bsd_inv d seen" "s \<notin> set seen" "length seen < 65536"
  shows "\<exists>d'. BinStrDict_call d s = (d', Inr (two_bytes (length seen))) \<and> bsd_inv d' (seen @ [s])"
proof -
  have n: "bin_dict d s = None" and c: "cur_index d = length seen"
    using assms by (simp_all add: bsd_inv_lookup) (simp add: bsd_inv_def)
  let ?d = "d\<lparr>bin_items := bin_items d @ [(s, length seen)], cur_index := length seen + 1\<rparr>"
  have "BinStrDict_call d s = (?d, Inr (two_bytes (length seen)))"
    using n c assms(3) by (simp add: BinStrDict_call_def pack_16bit_def Let_def)
  moreover have "bsd_inv ?d (seen @ [s])"
    using assms(1,2) by (simp add: bsd_inv_def)
  ultimately show ?thesis by blast
qed

lemma call_full:
  assumes "bsd_inv d seen" "s \<notin> set seen" "length seen = 65536"
  shows "\<exists>d'. BinStrDict_call d s = (d', Inl StructError)"
proof -
  have n: "bin_dict d s = None" and c: "cur_index d = length seen"
    using assms by (simp_all add: bsd_inv_lookup) (simp add: bsd_inv_def)
  show ?thesis using n c assms(3) by (simp add: BinStrDict_call_def pack_16bit_def Let_def)
qed

lemma calls_general:
  assumes "bsd_inv d seen" "length seen \<le> 65536"
  shows "(card (set seen \<union> set ss) \<le> 65536 \<longrightarrow>
           (\<exists>d'. BinStrDict_calls d ss =
                    Inr (d', map (\<lambda>s. two_bytes (first_index (first_seen seen ss) s)) ss) \<and>
                  bsd_inv d' (first_seen seen ss))) \<and>
         (65536 < card (set seen \<union> set ss) \<longrightarrow> BinStrDict_calls d ss = Inl StructError)"
  using assms
proof (induction ss arbitrary: d seen)
  case Nil
  then have "card (set seen) = length seen" by (simp add: bsd_inv_def distinct_card)
  then show ?case using Nil by simp
next
  case (Cons s ss)
  have cs: "card (set seen) = length seen" using Cons.prems by (simp add: bsd_inv_def distinct_card)
  show ?case
  proof (cases "s \<in> set seen")
    case True
    have u: "set seen \<union> set (s # ss) = set seen \<union> set ss" using True by auto
    have fi: "first_index (first_seen seen ss) s = first_index seen s"
      using True by (rule first_seen_index)
    show ?thesis
      using Cons.IH[OF Cons.prems] call_known[OF Cons.prems(1) True Cons.prems(2)] True fi
      unfolding u by auto
  next
    case False
    have fin: "finite (set seen \<union> set ss)" by simp
    show ?thesis
    proof (cases "length seen = 65536")
      case True
      have "card (set seen \<union> set (s # ss)) \<ge> card (insert s (set seen))"
        by (rule card_mono) auto
      then have big: "65536 < card (set seen \<union> set (s # ss))"
        using False cs True by simp
      from call_full[OF Cons.prems(1) False True] obtain d' where
        "BinStrDict_call d s = (d', Inl StructError)" by blast
      then show ?thesis using big by simp
    next
      case ne: False
      then have lt: "length seen < 65536" using Cons.prems(2) by simp
      from call_new[OF Cons.prems(1) False lt] obtain d' where
        c: "BinStrDict_call d s = (d', Inr (two_bytes (length seen)))" and
        i: "bsd_inv d' (seen @ [s])" by blast
      have l: "length (seen @ [s]) \<le> 65536" using lt by simp
      have u: "set (seen @ [s]) \<union> set ss = set seen \<union> set (s # ss)" by auto
      have fi: "first_index (first_seen (seen @ [s]) ss) s = length seen"
        using first_seen_index[of s "seen @ [s]" ss] first_index_append_new[OF False] by simp
      show ?thesis
        using Cons.IH[OF i l] c False fi unfolding u by auto
    qed
  qed
qed

text \<open>
  Claim C8. Starting from an empty dictionary, a run of registrations succeeds when it holds
  at most 65536 distinct strings: every call returns the two bytes of the string's position
  in first-seen order, and the dictionary maps each string to that position. A run with
  more than 65536 distinct strings raises an error; the error is the one of
  \<^verbatim>\<open>Struct('>H').pack\<close>, reached at index 65536 before the dictionary's own size check,
  which only refuses an index above 65536.
\<close>

theorem binstrdict_first_seen_overflow:
  "(card (set ss) \<le> 65536 \<longrightarrow>
      (\<exists>d. BinStrDict_calls BinStrDict_init ss =
              Inr (d, map (\<lambda>s. two_bytes (first_index (first_seen [] ss) s)) ss) \<and>
           cur_index d = card (set ss) \<and>
           (\<forall>s. bin_dict d s =
                  (if s \<in> set ss then Some (first_index (first_seen [] ss) s) else None)))) \<and>
   (65536 < card (set ss) \<longrightarrow> BinStrDict_calls BinStrDict_init ss = Inl StructError)"
proof -
  have i: "bsd_inv BinStrDict_init []" by (simp add: bsd_inv_def BinStrDict_init_def)
  have l: "length ([] :: string list) \<le> 65536" by simp
  note g = calls_general[OF i l, of ss]
  show ?thesis
  proof (intro conjI impI)
    assume c: "card (set ss) \<le> 65536"
    with g obtain d' where
      r: "BinStrDict_calls BinStrDict_init ss =
            Inr (d', map (\<lambda>s. two_bytes (first_index (first_seen [] ss) s)) ss)" and
      v: "bsd_inv d' (first_seen [] ss)" by auto
    have "cur_index d' = card (set ss)"
      using v first_seen_set[of "[]" ss] distinct_card[of "first_seen [] ss"]
      by (simp add: bsd_inv_def)
    moreover have "\<forall>s. bin_dict d' s =
        (if s \<in> set ss then Some (first_index (first_seen [] ss) s) else None)"
      using bsd_inv_lookup[OF v] first_seen_set[of "[]" ss] by simp
    ultimately show "\<exists>d. BinStrDict_calls BinStrDict_init ss =
              Inr (d, map (\<lambda>s. two_bytes (first_index (first_seen [] ss) s)) ss) \<and>
           cur_index d = card (set ss) \<and>
           (\<forall>s. bin_dict d s =
                  (if s \<in> set ss then Some (first_index (first_seen [] ss) s) else None))"
      using r by blast
  next
    assume "65536 < card (set ss)"
    with g show "BinStrDict_calls BinStrDict_init ss = Inl StructError" by simp
  qed
qed

theorem binstrdict_first_seen_overflow_witness:
  "\<exists>d. BinStrDict_calls BinStrDict_init [''a'', ''b'', ''a''] = Inr (d, [[0, 0], [0, 1], [0, 0]]) \<and>
       cur_index d = 2 \<and> bin_dict d ''a'' = Some 0 \<and> bin_dict d ''b'' = Some 1 \<and>
       bin_dict d ''c'' = None"
proof -
  have c: "card (set [''a'', ''b'', ''a'']) \<le> 65536" by (simp only: length_remdups_card_conv[symmetric]) simp
  have c2: "card (set [''a'', ''b'', ''a'']) = 2" by (simp only: length_remdups_card_conv[symmetric]) simp
  from binstrdict_first_seen_overflow[of "[''a'', ''b'', ''a'']"] c
  obtain d where
    "BinStrDict_calls BinStrDict_init [''a'', ''b'', ''a''] =
       Inr (d, map (\<lambda>s. two_bytes (first_index (first_seen [] [''a'', ''b'', ''a'']) s)) [''a'', ''b'', ''a''])"
    "cur_index d = card (set [''a'', ''b'', ''a''])"
    "\<forall>s. bin_dict d s =
        (if s \<in> set [''a'', ''b'', ''a''] then Some (first_index (first_seen [] [''a'', ''b'', ''a'']) s) else None)"
    by blast
  then show ?thesis unfolding c2 by (intro exI[of _ d]) (simp add: two_bytes_def)
qed


section \<open>Properties of \<^verbatim>\<open>collapse_bases\<close>\<close>

lemma process_ent_no_bases:
  "bases (h ent) = [] \<Longrightarrow> process_ent ent (h, dn, deferred) = ((h, set_add dn ent, deferred), None)"
  by (simp add: process_ent_def)

lemma run_pass_no_bases:
  "list_all (\<lambda>r. bases (h r) = []) ents \<Longrightarrow>
   run_pass ents (h, dn, deferred) = ((h, foldl set_add dn ents, deferred), None)"
  by (induction ents arbitrary: dn) (simp_all add: process_ent_no_bases)

lemma collapse_loop_no_bases:
  assumes "list_all (\<lambda>r. bases (h r) = []) (iter_order todo)"
  shows "collapse_loop (Suc (Suc fuel)) iter_order h todo dn = (h, Returned)"
proof (cases "todo = []")
  case True
  then show ?thesis by simp
next
  case False
  then have "set todo \<noteq> set []" by simp
  then show ?thesis using False run_pass_no_bases[OF assms] by simp
qed

text \<open>
  Claim C9. When every entity of the database has an empty base list, \<^verbatim>\<open>collapse_bases\<close>
  returns without an error within two passes, whatever the iteration order of the set of
  entities, and leaves the heap as it was: no entity's keyvalues, inputs, outputs,
  \<^verbatim>\<open>kv_order\<close> or base list changes.
\<close>

theorem collapse_bases_idempotent:
  "(\<forall>r\<in>set (FGD_iter fgd). bases (h r) = []) \<and> (\<forall>xs. set (iter_order xs) = set xs) \<and> 2 \<le> fuel
   \<longrightarrow> collapse_bases fuel iter_order fgd h = (h, Returned)"
proof (intro impI, elim conjE)
  assume a: "\<forall>r\<in>set (FGD_iter fgd). bases (h r) = []"
    and o: "\<forall>xs. set (iter_order xs) = set xs" and f: "2 \<le> fuel"
  from f obtain n where n: "fuel = Suc (Suc n)"
    by (metis Suc_le_D numeral_2_eq_2 Suc_le_mono)
  have "set (iter_order (remdups (FGD_iter fgd))) = set (FGD_iter fgd)" using o by simp
  then have "list_all (\<lambda>r. bases (h r) = []) (iter_order (remdups (FGD_iter fgd)))"
    using a by (simp add: list_all_iff)
  then show "collapse_bases fuel iter_order fgd h = (h, Returned)"
    unfolding collapse_bases_def n by (rule collapse_loop_no_bases)
qed

lemmas collapse_eval = apply_bases_def FGD_iter_def FGD_new_def
   FGD_getitem_def set_bases_def str_eval collapse_bases_def process_ent_def set_add_def
   setdefault_empty_def merge_kv_def KeyValues_copy_def KeyValues_new_def set_keyvalues_def
   set_inputs_def set_outputs_def set_kv_order_def EntityDef_new_def has_list_def append_new_def

text \<open>
  The example of claim C5 when the set of entities is iterated with \<open>Base1\<close> first:
  \<open>my_ent\<close> ends with \<^verbatim>\<open>kv_order == ['other', 'field']\<close> and no bases.
\<close>

lemma collapse_example_base_first:
  "snd (apply_bases example_fgd example_heap) = None \<and>
   snd (collapse_bases (Suc (Suc fuel)) (\<lambda>xs. xs) example_fgd example_applied) = Returned \<and>
   kv_order (fst (collapse_bases (Suc (Suc fuel)) (\<lambda>xs. xs) example_fgd example_applied) 1) = [''other'', ''field''] \<and>
   bases (fst (collapse_bases (Suc (Suc fuel)) (\<lambda>xs. xs) example_fgd example_applied) 1) = []"
  by (simp add: example_applied_def example_fgd_def example_heap_def example_base1_def example_my_ent_def collapse_eval)

text \<open>
  Claim C5 at the same database when the set of entities is iterated with \<open>my_ent\<close> first.
  The pass defers \<open>my_ent\<close> and its base, then finishes \<open>Base1\<close>; \<^verbatim>\<open>todo == deferred\<close> holds
  and the cycle error is raised, with \<open>my_ent\<close> left as it was.
\<close>

theorem collapse_example_entity_first:
  "bases (example_applied 1) = [BaseEnt 0] \<and> bases (example_applied 0) = [] \<and>
   snd (collapse_bases (Suc fuel) rev example_fgd example_applied) = Raised LoopInBases \<and>
   kv_order (fst (collapse_bases (Suc fuel) rev example_fgd example_applied) 1) = [''field''] \<and>
   bases (fst (collapse_bases (Suc fuel) rev example_fgd example_applied) 1) = [BaseEnt 0]"
  by (simp add: example_applied_def example_fgd_def example_heap_def example_base1_def example_my_ent_def collapse_eval)

text \<open>
  Claim C4 at the database with the cycle between \<open>A\<close> and \<open>B\<close>, iterated in insertion
  order. \<open>E\<close> receives a copy of \<open>D\<close>'s keyvalue whose empty list has become \<^verbatim>\<open>None\<close>;
  collapsing \<open>F\<close> then iterates that \<^verbatim>\<open>None\<close>, and the call ends with \<^verbatim>\<open>TypeError\<close> in place
  of the cycle error.
\<close>

theorem collapse_cycle_type_error:
  "bases (cycle_heap 3) = [BaseEnt 4] \<and> bases (cycle_heap 4) = [BaseEnt 3] \<and>
   snd (collapse_bases (Suc fuel) (\<lambda>xs. xs) cycle_fgd cycle_heap) = Raised TypeError"
  by (simp add: cycle_heap_def cycle_fgd_def flags_kv_def collapse_eval)

text \<open>Iterated in the reverse order, the same database gives the cycle error.\<close>

lemma collapse_cycle_reversed:
  "snd (collapse_bases 5 rev cycle_fgd cycle_heap) = Raised LoopInBases"
  by code_simp


lemma example_collapsed_no_bases:
  "list_all (\<lambda>r. bases (fst (collapse_bases 5 (\<lambda>xs. xs) example_fgd example_applied) r) = [])
     (FGD_iter example_fgd)"
  by code_simp

theorem collapse_bases_idempotent_witness:
  "collapse_bases 2 rev example_fgd (fst (collapse_bases 5 (\<lambda>xs. xs) example_fgd example_applied)) =
     (fst (collapse_bases 5 (\<lambda>xs. xs) example_fgd example_applied), Returned)"
proof -
  have "\<forall>r\<in>set (FGD_iter example_fgd).
          bases (fst (collapse_bases 5 (\<lambda>xs. xs) example_fgd example_applied) r) = []"
    using example_collapsed_no_bases by (simp add: list_all_iff)
  then show ?thesis
    using collapse_bases_idempotent[of example_fgd
            "fst (collapse_bases 5 (\<lambda>xs. xs) example_fgd example_applied)" rev 2]
    by simp
qed


section \<open>Properties of the entity view\<close>

text \<open>
  Claim C3 at an entity whose keyvalue \<open>a\<close> is stored under the tag set \<open>{HL2}\<close>, looked up
  with the query \<open>{HL2}\<close>. The tag set satisfies \<^verbatim>\<open>match_tags\<close> against the query, but
  \<^verbatim>\<open>__getitem__\<close> case-folds the query to lower case before matching it against the
  upper-cased stored tags, so the lookup raises \<^verbatim>\<open>KeyError\<close>. The wildcard \<open><ALL>\<close> is
  lost the same way.
\<close>

theorem view_getitem_casefolds_query:
  "match_tags upper {''HL2''} [''HL2''] \<and>
   view_getitem keyvalues tagged_ent (KeyTagged ''a'' [''HL2'']) = Inl KeyError \<and>
   view_getitem keyvalues tagged_ent (KeyTagged ''a'' [''<ALL>'']) = Inl KeyError"
  by (simp add: view_getitem_def tagged_ent_def sorted_items_def match_tags_def str_eval)


section \<open>Properties of the grammar parser\<close>

lemma keyvalues_set [simp]:
  "keyvalues (set_keyvalues v e) = v"
  "keyvalues (set_classname c e) = keyvalues e"
  "keyvalues (set_inputs i e) = keyvalues e"
  "keyvalues (set_outputs i e) = keyvalues e"
  "keyvalues (set_kv_order k e) = keyvalues e"
  "keyvalues (set_bases b e) = keyvalues e"
  "keyvalues (set_helpers hs e) = keyvalues e"
  "keyvalues (set_desc s e) = keyvalues e"
  by (simp_all add: set_keyvalues_def set_classname_def set_inputs_def set_outputs_def
        set_kv_order_def set_bases_def set_helpers_def set_desc_def)

lemma list_all_dict_update:
  "list_all Q d \<Longrightarrow> Q (k, v) \<Longrightarrow> list_all Q (dict_update d k v)"
  by (induction d) auto

lemma list_all_fs_update:
  "list_all (\<lambda>tagged. P (snd tagged)) m \<Longrightarrow> P v \<Longrightarrow>
   list_all (\<lambda>tagged. P (snd tagged)) (fs_update m k v)"
  by (induction m) auto

lemma setdefault_empty_all:
  assumes "setdefault_empty d k = (d1, m)"
    and "list_all (\<lambda>item. list_all Q (snd item)) d"
  shows "list_all (\<lambda>item. list_all Q (snd item)) d1 \<and> list_all Q m"
proof (cases "map_of d k")
  case None
  then show ?thesis using assms by (auto simp: setdefault_empty_def intro: list_all_dict_update)
next
  case (Some m')
  then have "(k, m') \<in> set d" by (rule map_of_SomeD)
  then have "list_all Q m'" using assms(2) by (auto simp: list_all_iff)
  then show ?thesis using assms Some by (auto simp: setdefault_empty_def)
qed

lemma parse_keyvalue_readonly:
  assumes "parse_keyvalue entity name ts = Inr (entity1, out)"
    and "all_keyvalues (\<lambda>kv. kv_readonly kv = PyBool False) entity"
  shows "all_keyvalues (\<lambda>kv. kv_readonly kv = PyBool False) entity1"
proof -
  obtain d tags_map where sd: "setdefault_empty (keyvalues entity) (casefold name) = (d, tags_map)"
    by (cases "setdefault_empty (keyvalues entity) (casefold name)")
  have a: "list_all (\<lambda>item. list_all (\<lambda>tagged. kv_readonly (snd tagged) = PyBool False) (snd item)) d"
    and b: "list_all (\<lambda>tagged. kv_readonly (snd tagged) = PyBool False) tags_map"
    using setdefault_empty_all[OF sd] assms(2) by (simp_all add: all_keyvalues_def)
  from assms(1) obtain tags val_typ disp_name dflt doc val_list ro e2 where
    e1: "entity1 = set_keyvalues (dict_update d (casefold name)
            (fs_update tags_map tags
               (KeyValues_new name val_typ disp_name dflt doc val_list
                  (PyBool (py_eq (PyBool ro) (PyStr ''readonly'')))))) e2"
    unfolding parse_keyvalue_def Let_def sd
    by (auto split: sum.splits option.splits if_splits prod.splits)
  have "kv_readonly (KeyValues_new name val_typ disp_name dflt doc val_list
                  (PyBool (py_eq (PyBool ro) (PyStr ''readonly'')))) = PyBool False"
    by (simp add: KeyValues_new_def)
  then show ?thesis
    unfolding e1 all_keyvalues_def
    using a b by (auto intro!: list_all_dict_update list_all_fs_update)
qed

lemma parse_io_keyvalues:
  "parse_io entity io_kind ts = Inr (entity1, out) \<Longrightarrow> keyvalues entity1 = keyvalues entity"
  unfolding parse_io_def Let_def
  by (auto split: sum.splits option.splits if_splits prod.splits)

lemma parse_body_readonly:
  "all_keyvalues (\<lambda>kv. kv_readonly kv = PyBool False) entity \<Longrightarrow>
   all_keyvalues (\<lambda>kv. kv_readonly kv = PyBool False) (fst (parse_body entity ts))"
proof (induction entity ts rule: parse_body.induct)
  case (1 entity)
  then show ?case by simp
next
  case (2 entity token token_value rest)
  show ?case
  proof (cases "token = STRING")
    case False
    then show ?thesis using 2 by auto
  next
    case True
    let ?r = "if casefold token_value \<in> set [''input'', ''output'']
              then parse_io entity (casefold token_value) rest
              else parse_keyvalue entity (casefold token_value) rest"
    show ?thesis
    proof (cases ?r)
      case (Inl e)
      then show ?thesis using True "2.prems" by (simp add: Let_def)
    next
      case (Inr p)
      obtain entity1 rest1 where p: "p = (entity1, rest1)" by (cases p)
      have "all_keyvalues (\<lambda>kv. kv_readonly kv = PyBool False) entity1"
        using Inr p "2.prems" parse_keyvalue_readonly[of entity "casefold token_value" rest entity1 rest1]
              parse_io_keyvalues[of entity "casefold token_value" rest entity1 rest1]
        by (auto simp: all_keyvalues_def split: if_splits)
      then have "all_keyvalues (\<lambda>kv. kv_readonly kv = PyBool False) (fst (parse_body entity1 rest1))"
        using "2.IH"(2)[OF _ _ _ _ refl Inr p[symmetric]] True by auto
      then show ?thesis using True Inr p by (simp add: Let_def)
    qed
  qed
qed

lemma add_bases_keyvalues:
  "add_bases fgd eb args entity = Inr entity1 \<Longrightarrow> keyvalues entity1 = keyvalues entity"
  by (induction fgd eb args entity rule: add_bases.induct) (auto split: sum.splits if_splits)

lemma parse_header_keyvalues:
  "parse_header fgd eb ts ht entity = Inr (ht1, entity1, out) \<Longrightarrow> keyvalues entity1 = keyvalues entity"
proof (induction fgd eb ts ht entity rule: parse_header.induct)
  case (1 fgd eval_bases help_type entity)
  then show ?case by simp
next
  case (2 fgd eval_bases token token_value rest help_type entity)
  then show ?case
    by (auto simp: Let_def split: if_splits option.splits sum.splits dest!: add_bases_keyvalues)
qed

lemma parse_desc_keyvalues:
  "parse_desc ts ds entity = Inr (entity1, out) \<Longrightarrow> keyvalues entity1 = keyvalues entity"
  by (induction ts ds entity rule: parse_desc.induct)
     (auto split: if_splits option.splits sum.splits)


lemmas parse_eval = EntityDef_parse_def parse_keyvalue_def parse_io_def read_kv_attrs_def
  read_type_and_tags_def tok_call_def val_list_entry_def spawnflag_value_def py_int_def
  strip_def whitespace_def int_whitespace_def py_digits_def digit_value_def is_power_of_two_def read_tags_def
  VALUE_TYPE_LOOKUP_def ValueTypes_members_def HelperTypes_of_value_def
  setdefault_empty_def KeyValues_new_def IODef_new_def EntityDef_new_def FGD_new_def has_list_def
  set_keyvalues_def set_classname_def set_inputs_def set_outputs_def set_kv_order_def
  set_bases_def set_helpers_def set_desc_def str_eval

text \<open>
  Claim C10. Whatever the token stream, \<^verbatim>\<open>EntityDef.parse\<close> either fails before it stores
  the entity, leaving database and heap as they were, or the entity it stored has the
  \<^verbatim>\<open>readonly\<close> attribute \<^verbatim>\<open>False\<close> in every keyvalue record, also when parsing failed
  later in the body: the record is built with the comparison of the boolean
  \<open>is_readonly\<close> against the string \<open>readonly\<close>, which is never equal.
\<close>

theorem parsed_keyvalues_never_readonly:
  "EntityDef_parse fgd h ent ts typ eval_bases = ((fgd1, h1), r) \<Longrightarrow>
   (\<exists>e. r = Inl e \<and> fgd1 = fgd \<and> h1 = h) \<or>
   all_keyvalues (\<lambda>kv. kv_readonly kv = PyBool False) (h1 ent)"
proof -
  assume a: "EntityDef_parse fgd h ent ts typ eval_bases = ((fgd1, h1), r)"
  show ?thesis
  proof (cases "\<exists>e. r = Inl e \<and> fgd1 = fgd \<and> h1 = h")
    case True
    then show ?thesis by blast
  next
    case False
    with a obtain help_type entity rest cn rest1 entity2 rest2 where
      hd: "parse_header fgd eval_bases ts None (EntityDef_new typ) = Inr (help_type, entity, rest)" and
      ds: "parse_desc rest1 None
             (set_classname (strip cn)
                (case help_type of None \<Rightarrow> entity
                 | Some ht \<Rightarrow> set_helpers (helpers entity @ [(ht, [])]) entity)) = Inr (entity2, rest2)" and
      h1: "h1 = h(ent := fst (parse_body entity2 rest2))"
      unfolding EntityDef_parse_def Let_def
      by (auto split: sum.splits prod.splits)
    have "keyvalues entity = []"
      using parse_header_keyvalues[OF hd] by (simp add: EntityDef_new_def)
    then have "keyvalues entity2 = []"
      using parse_desc_keyvalues[OF ds] by (auto split: option.splits)
    then have "all_keyvalues (\<lambda>kv. kv_readonly kv = PyBool False) entity2"
      by (simp add: all_keyvalues_def)
    then have "all_keyvalues (\<lambda>kv. kv_readonly kv = PyBool False) (fst (parse_body entity2 rest2))"
      by (rule parse_body_readonly)
    then show ?thesis using h1 by simp
  qed
qed


lemma readonly_tokens_parse:
  "snd readonly_parsed = Inr [(NEWLINE, [])] \<and>
   keyvalues (snd (fst readonly_parsed) 0) =
     [(''speed'', [([], KeyValues_new ''speed'' VT_INT ''Speed'' ''5'' [] None (PyBool False))])]"
  by code_simp

theorem parsed_keyvalues_never_readonly_witness:
  "keyvalues (snd (fst readonly_parsed) 0) =
     [(''speed'', [([], KeyValues_new ''speed'' VT_INT ''Speed'' ''5'' [] None (PyBool False))])] \<and>
   all_keyvalues (\<lambda>kv. kv_readonly kv = PyBool False) (snd (fst readonly_parsed) 0)"
proof -
  have "EntityDef_parse FGD_new (\<lambda>r. EntityDef_new ET_BASE) 0 readonly_tokens ET_POINT True =
          ((fst (fst readonly_parsed), snd (fst readonly_parsed)), snd readonly_parsed)"
    by (simp add: readonly_parsed_def)
  from parsed_keyvalues_never_readonly[OF this] readonly_tokens_parse
  show ?thesis by auto
qed

section \<open>Serialising a parsed spawnflags keyvalue\<close>

lemma floor_log2_small: "floor_log2 (Suc 0) = 0" "floor_log2 2 = 1"
  by (simp_all add: floor_log2_def eval_nat_numeral)

lemmas serialise_eval = KeyValues_serialise_def and_then_def write_str_def write_8bit_def
  write_16bit_def BinStrDict_call_def BinStrDict_init_def bin_dict_def pack_8bit_def pack_16bit_def
  two_bytes_def log2_power_def VALUE_TYPE_INDEX_def VALUE_TYPE_ORDER_def flags_kv_def
  KeyValues_new_def upt_rec Let_def floor_log2_small

lemma flags_tokens_parse:
  "keyvalues (snd (fst (EntityDef_parse FGD_new (\<lambda>r. EntityDef_new ET_BASE) 0
                          ((EQUALS, []) # flags_tokens) ET_POINT True)) 0) =
     [(''spawnflags'',
       [([], flags_kv [[PyInt 1, PyStr ''One'', PyBool True, PyTags []],
                       [PyInt 2, PyStr ''Two'', PyBool False, PyTags []]])])]"
  by code_simp

text \<open>
  Claim C7 at the value list the parser builds from the entries \<open>1: "One" : 1\<close> and
  \<open>2: "Two" : 0\<close>. The parser stores the four-element tuples
  \<open>(value, name, default, tags)\<close>, as the class documents them; \<^verbatim>\<open>KeyValues.serialise\<close>
  unpacks three elements, so after the name, display name, type byte and entry count it
  raises \<^verbatim>\<open>ValueError\<close> and writes no entry byte.
\<close>

theorem parsed_spawnflags_not_serialisable:
  "keyvalues (snd (fst (EntityDef_parse FGD_new (\<lambda>r. EntityDef_new ET_BASE) 0
                          ((EQUALS, []) # flags_tokens) ET_POINT True)) 0) =
     [(''spawnflags'',
       [([], flags_kv [[PyInt 1, PyStr ''One'', PyBool True, PyTags []],
                       [PyInt 2, PyStr ''Two'', PyBool False, PyTags []]])])] \<and>
   snd (KeyValues_serialise
          (flags_kv [[PyInt 1, PyStr ''One'', PyBool True, PyTags []],
                     [PyInt 2, PyStr ''Two'', PyBool False, PyTags []]])
          (BinStrDict_init, [])) = Some UnpackError \<and>
   snd (fst (KeyValues_serialise
          (flags_kv [[PyInt 1, PyStr ''One'', PyBool True, PyTags []],
                     [PyInt 2, PyStr ''Two'', PyBool False, PyTags []]])
          (BinStrDict_init, []))) = [0, 0, 0, 0, 2, 2]"
  using flags_tokens_parse by (simp add: serialise_eval)

text \<open>
  With the three-element tuples that \<^verbatim>\<open>KeyValues.unserialise\<close> builds, the entries are
  written as the claim says: \<open>0x80\<close> and the reference of \<open>One\<close>, \<open>0x01\<close> and the
  reference of \<open>Two\<close>.
\<close>

lemma three_tuple_spawnflags_bytes:
  "snd (KeyValues_serialise
          (flags_kv [[PyInt 1, PyStr ''One'', PyBool True], [PyInt 2, PyStr ''Two'', PyBool False]])
          (BinStrDict_init, [])) = None \<and>
   snd (fst (KeyValues_serialise
          (flags_kv [[PyInt 1, PyStr ''One'', PyBool True], [PyInt 2, PyStr ''Two'', PyBool False]])
          (BinStrDict_init, []))) = [0, 0, 0, 0, 2, 2, 0x80, 0, 1, 0x01, 0, 2]"
  by (simp add: serialise_eval)

end
